theory Spec2Isabelle
  imports Complex_Main "HOL-Library.List_Lexorder" "HOL-Library.Char_ord" "HOL-Library.AList"
begin

section \<open>Shared data model\<close>

text \<open>
  Exceptions of the Python program are values: every function that can raise returns
  \<open>py_error + 'a\<close>, with \<open>Inl\<close> for the exception.  Tensor entries and Python floats are
  modelled as exact reals; a tensor division whose divisor is zero (which yields a
  non-finite entry instead of raising) is modelled by \<open>None\<close>.
\<close>

datatype py_error =
    ZeroDivisionError | IndexError | KeyError | ValueError | TypeError
  | FileNotFoundError | RuntimeError | LinAlgError | UnboundLocalError

type_synonym vec3 = "real \<times> real \<times> real"

type_synonym mat3 = "vec3 \<times> vec3 \<times> vec3"

text \<open>A named-tensor dictionary (\<open>state_dict()\<close> of a network): name to flattened tensor.\<close>

type_synonym state_dict = "string \<rightharpoonup> real list"

record param_group =
  lr :: real
  params :: "nat list"

record optimizer_state =
  param_groups :: "param_group list"
  adam_state :: "nat \<rightharpoonup> real list"

text \<open>The fields of \<open>Runner\<close> (src/exp_runner_psnerf.py) that the verified methods read or write.\<close>

record runner =
  iter_step :: int
  end_iter :: int
  learning_rate :: real
  learning_rate_alpha :: real
  warm_up_end :: real
  nerf_outside :: state_dict
  sdf_network :: state_dict
  deviation_network :: state_dict
  color_network :: state_dict
  optimizer :: optimizer_state

section \<open>Learning-rate schedule: \<open>Runner.update_learning_rate\<close>\<close>

text \<open>
  \<open>iter_step\<close> and \<open>end_iter\<close> are Python ints, \<open>warm_up_end\<close> a Python float, so both
  divisions are Python float divisions and raise \<open>ZeroDivisionError\<close> on a zero divisor.
\<close>

definition learning_factor :: "runner \<Rightarrow> py_error + real" where
  "learning_factor r =
     (if real_of_int (iter_step r) < warm_up_end r then
        (if warm_up_end r = 0 then Inl ZeroDivisionError
         else Inr (real_of_int (iter_step r) / warm_up_end r))
      else
        (let alpha = learning_rate_alpha r in
         if real_of_int (end_iter r) - warm_up_end r = 0 then Inl ZeroDivisionError
         else
           (let progress = (real_of_int (iter_step r) - warm_up_end r)
                           / (real_of_int (end_iter r) - warm_up_end r)
            in Inr ((cos (pi * progress) + 1.0) * 0.5 * (1 - alpha) + alpha))))"

definition update_learning_rate :: "runner \<Rightarrow> py_error + runner" where
  "update_learning_rate r =
     (case learning_factor r of
        Inl e \<Rightarrow> Inl e
      | Inr f \<Rightarrow>
          Inr (r\<lparr>optimizer := (optimizer r)\<lparr>param_groups :=
                 map (\<lambda>g. g\<lparr>lr := learning_rate r * f\<rparr>) (param_groups (optimizer r))\<rparr>\<rparr>))"

section \<open>Near/far bounds: \<open>Dataset.near_far_from_sphere\<close>\<close>

definition dot3 :: "vec3 \<Rightarrow> vec3 \<Rightarrow> real" where
  "dot3 u v = (case u of (u1, u2, u3) \<Rightarrow> case v of (v1, v2, v3) \<Rightarrow> u1 * v1 + u2 * v2 + u3 * v3)"

text \<open>
  One row of the batch.  \<open>a\<close> is zero exactly for the zero direction; the tensor division
  then produces a non-finite value, modelled by \<open>None\<close>.
\<close>

definition near_far_ray :: "vec3 \<Rightarrow> vec3 \<Rightarrow> (real \<times> real) option" where
  "near_far_ray rays_o rays_d =
     (let a = dot3 rays_d rays_d;
          b = 2.0 * dot3 rays_o rays_d
      in if a = 0 then None
         else (let mid = 0.5 * (- b) / a;
                   near = mid - 1.0;
                   far = mid + 1.0
               in Some (near, far)))"

text \<open>The batch: both tensors have shape [B, 3]; differing batch sizes do not combine.\<close>

definition near_far_from_sphere ::
  "vec3 list \<Rightarrow> vec3 list \<Rightarrow> py_error + (real \<times> real) option list" where
  "near_far_from_sphere rays_o rays_d =
     (if length rays_o \<noteq> length rays_d then Inl RuntimeError
      else Inr (map (\<lambda>(o', d). near_far_ray o' d) (zip rays_o rays_d)))"

section \<open>Python strings and integers\<close>

text \<open>\<open>str(n)\<close> for a natural number: its decimal digits, most significant first.\<close>

definition digit_char :: "nat \<Rightarrow> char" where
  "digit_char d = ''0123456789'' ! d"

fun str_nat :: "nat \<Rightarrow> string" where
  "str_nat n = (if n < 10 then [digit_char n] else str_nat (n div 10) @ [digit_char (n mod 10)])"

declare str_nat.simps [simp del]

definition str_int :: "int \<Rightarrow> string" where
  "str_int i = (if i < 0 then CHR ''-'' # str_nat (nat (- i)) else str_nat (nat i))"

text \<open>
  \<open>'{:0>6d}'.format(i)\<close>: the decimal text of \<open>i\<close>, right-aligned in a field of width 6
  with fill character \<open>0\<close>; a longer text is not cut.
\<close>

definition format_0r6d :: "int \<Rightarrow> string" where
  "format_0r6d i = replicate (6 - length (str_int i)) (CHR ''0'') @ str_int i"

text \<open>
  \<open>int(s)\<close> on an ASCII string: surrounding whitespace is stripped, one sign is allowed,
  then decimal digits, where single underscores may separate digits.  Anything else
  raises \<open>ValueError\<close>.
\<close>

definition is_digit :: "char \<Rightarrow> bool" where
  "is_digit c = (48 \<le> (of_char c :: nat) \<and> (of_char c :: nat) \<le> 57)"

definition digit_val :: "char \<Rightarrow> nat" where
  "digit_val c = of_char c - 48"

definition is_space :: "char \<Rightarrow> bool" where
  "is_space c = ((of_char c :: nat) \<in> {9, 10, 11, 12, 13, 32})"

definition py_strip :: "string \<Rightarrow> string" where
  "py_strip s = rev (dropWhile is_space (rev (dropWhile is_space s)))"

fun parse_digits :: "string \<Rightarrow> nat \<Rightarrow> bool \<Rightarrow> nat option" where
  "parse_digits [] acc prev_digit = (if prev_digit then Some acc else None)"
| "parse_digits (c # cs) acc prev_digit =
     (if is_digit c then parse_digits cs (10 * acc + digit_val c) True
      else if c = CHR ''_'' \<and> prev_digit then parse_digits cs acc False
      else None)"

definition py_int :: "string \<Rightarrow> py_error + int" where
  "py_int s =
     (let t = py_strip s;
          (sign, body) = (case t of
                            c # cs \<Rightarrow> if c = CHR ''-'' then (- 1, cs)
                                      else if c = CHR ''+'' then (1, cs) else (1, t)
                          | [] \<Rightarrow> (1 :: int, t))
      in case parse_digits body 0 False of
           None \<Rightarrow> Inl ValueError
         | Some n \<Rightarrow> Inr (sign * int n))"

text \<open>The two slices used on checkpoint names: \<open>s[-3:]\<close> and \<open>s[5:-4]\<close>.\<close>

definition slice_last3 :: "string \<Rightarrow> string" where
  "slice_last3 s = drop (length s - 3) s"

definition slice_5_m4 :: "string \<Rightarrow> string" where
  "slice_5_m4 s = drop 5 (take (length s - 4) s)"

section \<open>Checkpoints: \<open>Runner.save_checkpoint\<close>, \<open>Runner.load_checkpoint\<close>\<close>

record checkpoint =
  ck_nerf :: state_dict
  ck_sdf_network_fine :: state_dict
  ck_variance_network_fine :: state_dict
  ck_color_network_fine :: state_dict
  ck_optimizer :: optimizer_state
  ck_iter_step :: int

text \<open>
  The directory \<open>base_exp_dir/checkpoints\<close>: \<open>None\<close> while it does not exist, otherwise its
  entries in listing order.  A file is a pickled checkpoint or something \<open>torch.load\<close>
  cannot read.
\<close>

datatype dir_entry = CheckpointFile checkpoint | OtherFile

type_synonym directory = "(string \<times> dir_entry) list"

definition checkpoint_name :: "int \<Rightarrow> string" where
  "checkpoint_name n = ''ckpt_'' @ format_0r6d n @ ''.pth''"

definition save_checkpoint :: "runner \<Rightarrow> directory option \<Rightarrow> directory option" where
  "save_checkpoint r dir =
     (let checkpoint = \<lparr>ck_nerf = nerf_outside r,
                         ck_sdf_network_fine = sdf_network r,
                         ck_variance_network_fine = deviation_network r,
                         ck_color_network_fine = color_network r,
                         ck_optimizer = optimizer r,
                         ck_iter_step = iter_step r\<rparr>;
          d = (case dir of None \<Rightarrow> [] | Some d \<Rightarrow> d)
      in Some (AList.update (checkpoint_name (iter_step r)) (CheckpointFile checkpoint) d))"

text \<open>
  \<open>Module.load_state_dict\<close> (strict): the names and the sizes of the loaded tensors must be
  those of the module, which then holds the loaded tensors.
\<close>

definition module_load_state_dict :: "state_dict \<Rightarrow> state_dict \<Rightarrow> py_error + state_dict" where
  "module_load_state_dict cur sd =
     (if dom sd = dom cur \<and> (\<forall>k \<in> dom cur. map_option length (sd k) = map_option length (cur k))
      then Inr sd else Inl RuntimeError)"

text \<open>
  \<open>Optimizer.load_state_dict\<close>: the number of parameter groups and the size of each group
  must agree; the groups take the loaded hyper-parameters and keep their own parameters.
\<close>

definition optimizer_load_state_dict ::
  "optimizer_state \<Rightarrow> optimizer_state \<Rightarrow> py_error + optimizer_state" where
  "optimizer_load_state_dict cur sd =
     (if length (param_groups sd) \<noteq> length (param_groups cur) then Inl ValueError
      else if map (\<lambda>g. length (params g)) (param_groups sd)
              \<noteq> map (\<lambda>g. length (params g)) (param_groups cur) then Inl ValueError
      else Inr (sd\<lparr>param_groups :=
                  map (\<lambda>(s, c). s\<lparr>params := params c\<rparr>) (zip (param_groups sd) (param_groups cur))\<rparr>))"

definition load_checkpoint :: "runner \<Rightarrow> directory option \<Rightarrow> string \<Rightarrow> py_error + runner" where
  "load_checkpoint r dir checkpoint_name' =
     (case dir of
        None \<Rightarrow> Inl FileNotFoundError
      | Some d \<Rightarrow>
         (case map_of d checkpoint_name' of
            None \<Rightarrow> Inl FileNotFoundError
          | Some OtherFile \<Rightarrow> Inl RuntimeError
          | Some (CheckpointFile checkpoint) \<Rightarrow>
             (case module_load_state_dict (nerf_outside r) (ck_nerf checkpoint) of
                Inl e \<Rightarrow> Inl e
              | Inr n \<Rightarrow>
             (case module_load_state_dict (sdf_network r) (ck_sdf_network_fine checkpoint) of
                Inl e \<Rightarrow> Inl e
              | Inr s \<Rightarrow>
             (case module_load_state_dict (deviation_network r) (ck_variance_network_fine checkpoint) of
                Inl e \<Rightarrow> Inl e
              | Inr v \<Rightarrow>
             (case module_load_state_dict (color_network r) (ck_color_network_fine checkpoint) of
                Inl e \<Rightarrow> Inl e
              | Inr c \<Rightarrow>
             (case optimizer_load_state_dict (optimizer r) (ck_optimizer checkpoint) of
                Inl e \<Rightarrow> Inl e
              | Inr opt \<Rightarrow>
                 Inr (r\<lparr>nerf_outside := n, sdf_network := s, deviation_network := v,
                        color_network := c, optimizer := opt,
                        iter_step := ck_iter_step checkpoint\<rparr>))))))))"

text \<open>
  Two runners built from the same configuration: the same tensor names and sizes in each
  network, the same parameter groups in the optimizer.
\<close>

definition same_architecture :: "runner \<Rightarrow> runner \<Rightarrow> bool" where
  "same_architecture r' r =
     (module_load_state_dict (nerf_outside r') (nerf_outside r) = Inr (nerf_outside r)
      \<and> module_load_state_dict (sdf_network r') (sdf_network r) = Inr (sdf_network r)
      \<and> module_load_state_dict (deviation_network r') (deviation_network r) = Inr (deviation_network r)
      \<and> module_load_state_dict (color_network r') (color_network r) = Inr (color_network r)
      \<and> map params (param_groups (optimizer r')) = map params (param_groups (optimizer r)))"

section \<open>Checkpoint selection in \<open>Runner.__init__\<close> and the command line\<close>

text \<open>
  The loop condition \<open>model_name[-3:] == 'pth' and int(model_name[5:-4]) <= self.end_iter\<close>;
  \<open>and\<close> evaluates \<open>int\<close> only after the suffix test has passed.
\<close>

definition model_name_ok :: "int \<Rightarrow> string \<Rightarrow> py_error + bool" where
  "model_name_ok end_iter' model_name =
     (if slice_last3 model_name = ''pth'' then
        (case py_int (slice_5_m4 model_name) of
           Inl e \<Rightarrow> Inl e
         | Inr v \<Rightarrow> Inr (v \<le> end_iter'))
      else Inr False)"

fun scan_model_list :: "int \<Rightarrow> string list \<Rightarrow> py_error + string list" where
  "scan_model_list end_iter' [] = Inr []"
| "scan_model_list end_iter' (model_name # rest) =
     (case model_name_ok end_iter' model_name of
        Inl e \<Rightarrow> Inl e
      | Inr ok \<Rightarrow>
         (case scan_model_list end_iter' rest of
            Inl e \<Rightarrow> Inl e
          | Inr model_list \<Rightarrow> Inr (if ok then model_name # model_list else model_list)))"

text \<open>\<open>os.listdir\<close>, the filter loop, \<open>model_list.sort()\<close> and \<open>model_list[-1]\<close>.\<close>

definition latest_model_name :: "int \<Rightarrow> directory option \<Rightarrow> py_error + string" where
  "latest_model_name end_iter' dir =
     (case dir of
        None \<Rightarrow> Inl FileNotFoundError
      | Some d \<Rightarrow>
         (case scan_model_list end_iter' (map fst d) of
            Inl e \<Rightarrow> Inl e
          | Inr model_list \<Rightarrow>
             (let sorted_list = sort model_list
              in if sorted_list = [] then Inl IndexError else Inr (last sorted_list))))"

text \<open>
  The checkpoint part of \<open>Runner.__init__\<close> (lines 86 to 108).  \<open>built\<close> is the runner as
  constructed from the configuration up to that point, with \<open>iter_step = 0\<close>; the
  \<open>checkpoint\<close> parameter is tested for truth as a Python int.
\<close>

definition Runner_init :: "runner \<Rightarrow> directory option \<Rightarrow> bool \<Rightarrow> int \<Rightarrow> py_error + runner" where
  "Runner_init built dir is_continue checkpoint =
     (let r = built\<lparr>iter_step := 0\<rparr> in
      case (if checkpoint \<noteq> 0 then
              (case latest_model_name (end_iter r) dir of
                 Inl e \<Rightarrow> Inl e | Inr n \<Rightarrow> Inr (Some n))
            else Inr None) of
        Inl e \<Rightarrow> Inl e
      | Inr latest1 \<Rightarrow>
         (case (if is_continue then
                  (case latest_model_name (end_iter r) dir of
                     Inl e \<Rightarrow> Inl e | Inr n \<Rightarrow> Inr (Some n))
                else Inr latest1) of
            Inl e \<Rightarrow> Inl e
          | Inr None \<Rightarrow> Inr r
          | Inr (Some name) \<Rightarrow> load_checkpoint r dir name))"

record args =
  args_conf :: string
  args_mode :: string
  args_mcube_threshold :: real
  args_is_continue :: bool
  args_checkpoint :: int
  args_gpu :: int
  args_case :: string

text \<open>
  The construction in \<open>__main__\<close>: \<open>runner = Runner(args.conf, args.mode, args.case,
  args.is_continue)\<close>.  \<open>build\<close> stands for lines 26 to 84 of \<open>Runner.__init__\<close>
  (configuration, dataset, networks, optimizer); the fifth parameter of \<open>Runner\<close> is not
  passed and takes its default \<open>False\<close>.
\<close>

definition main_runner ::
  "(string \<Rightarrow> string \<Rightarrow> string \<Rightarrow> runner) \<Rightarrow> directory option \<Rightarrow> args \<Rightarrow> py_error + runner" where
  "main_runner build dir a =
     Runner_init (build (args_conf a) (args_mode a) (args_case a)) dir (args_is_continue a) 0"

section \<open>Losses of the training step: \<open>Runner.train\<close>, \<open>Runner.evaluate\<close>, \<open>Runner.validate_image\<close>\<close>

text \<open>
  One row of the batch \<open>data\<close> returned by \<open>gen_random_rays_at_psnerf\<close>: 14 columns, cut by
  \<open>data[:, :3]\<close>, \<open>data[:, 3:6]\<close>, \<open>data[:, 6:9]\<close>, \<open>data[:, 9:12]\<close>, \<open>data[:, 12:13]\<close>,
  \<open>data[:, 13:14]\<close>.
\<close>

record ray_sample =
  row_rays_o :: vec3
  row_rays_d :: vec3
  row_true_rgb :: vec3
  row_true_normal :: vec3
  row_mask :: real
  row_normal_mask :: real

text \<open>
  Lines 140 to 145 (and 359 to 364 of \<open>evaluate\<close>, which are the same):
  \<open>mask = (mask > 0.5).int()\<close> when \<open>mask_weight > 0\<close>, all ones otherwise, then
  \<open>mask_sum = mask.sum() + 1e-5\<close>.
\<close>

definition binarize_mask :: "real \<Rightarrow> real list \<Rightarrow> real list" where
  "binarize_mask mask_weight raw_mask =
     (if mask_weight > 0.0 then map (\<lambda>m. if m > 0.5 then 1 else 0) raw_mask
      else replicate (length raw_mask) 1)"

definition train_mask_sum :: "real \<Rightarrow> ray_sample list \<Rightarrow> real" where
  "train_mask_sum mask_weight data =
     sum_list (binarize_mask mask_weight (map row_mask data)) + 1 / 100000"

text \<open>The divisor of the PSNR of line 163, \<open>mask_sum * 3.0\<close>.\<close>

definition train_psnr_divisor :: "real \<Rightarrow> ray_sample list \<Rightarrow> real" where
  "train_psnr_divisor mask_weight data = train_mask_sum mask_weight data * 3.0"

definition evaluate_mask_sum :: "real \<Rightarrow> ray_sample list \<Rightarrow> real" where
  "evaluate_mask_sum mask_weight data =
     sum_list (binarize_mask mask_weight (map row_mask data)) + 1 / 100000"

text \<open>The divisor of the PSNR of line 373, \<open>mask_sum * 3.0\<close>.\<close>

definition evaluate_psnr_divisor :: "real \<Rightarrow> ray_sample list \<Rightarrow> real" where
  "evaluate_psnr_divisor mask_weight data = evaluate_mask_sum mask_weight data * 3.0"

text \<open>
  \<open>validate_image\<close>, line 411: \<open>mask_gt = mask.reshape(-1, 3)[:, :1].int()\<close>, the first of
  the three mask channels of every pixel, cut to an integer towards zero; line 466 divides
  by \<open>mask_gt.sum() * 3.0\<close>.
\<close>

definition to_int :: "real \<Rightarrow> int" where
  "to_int x = (if x \<ge> 0 then \<lfloor>x\<rfloor> else \<lceil>x\<rceil>)"

definition validate_image_mask_gt :: "vec3 list \<Rightarrow> int list" where
  "validate_image_mask_gt pixel_masks = map (\<lambda>(m1, m2, m3). to_int m1) pixel_masks"

definition validate_image_psnr_divisor :: "vec3 list \<Rightarrow> real" where
  "validate_image_psnr_divisor pixel_masks =
     real_of_int (sum_list (validate_image_mask_gt pixel_masks)) * 3.0"

text \<open>
  The normal loss, lines 174 and 180 to 183.  \<open>surface_points_normal\<close> comes from the
  renderer and has one row per ray; rows of different count do not combine.  The mask
  column multiplies each of the three components of its row.
\<close>

definition sub3 :: "vec3 \<Rightarrow> vec3 \<Rightarrow> vec3" where
  "sub3 u v = (case u of (u1, u2, u3) \<Rightarrow> case v of (v1, v2, v3) \<Rightarrow> (u1 - v1, u2 - v2, u3 - v3))"

definition scale3 :: "vec3 \<Rightarrow> real \<Rightarrow> vec3" where
  "scale3 u m = (case u of (u1, u2, u3) \<Rightarrow> (u1 * m, u2 * m, u3 * m))"

definition abs_sum3 :: "vec3 \<Rightarrow> real" where
  "abs_sum3 u = (case u of (u1, u2, u3) \<Rightarrow> \<bar>u1\<bar> + \<bar>u2\<bar> + \<bar>u3\<bar>)"

definition normal_error :: "vec3 list \<Rightarrow> ray_sample list \<Rightarrow> py_error + vec3 list" where
  "normal_error surface_points_normal data =
     (if length surface_points_normal \<noteq> length data then Inl RuntimeError
      else Inr (map (\<lambda>(n, row). scale3 (sub3 n (row_true_normal row)) (row_normal_mask row))
                  (zip surface_points_normal data)))"

text \<open>
  \<open>F.l1_loss(x, torch.zeros_like(x))\<close> with the default reduction: the mean of the absolute
  values of all entries of \<open>x\<close>, three per row.  It is only called on a tensor with rows.
\<close>

definition l1_loss_zeros :: "vec3 list \<Rightarrow> real" where
  "l1_loss_zeros x = sum_list (map (\<lambda>e. abs_sum3 (sub3 e (0, 0, 0))) x) / real (3 * length x)"

definition normal_loss :: "vec3 list \<Rightarrow> ray_sample list \<Rightarrow> py_error + real" where
  "normal_loss surface_points_normal data =
     (case normal_error surface_points_normal data of
        Inl e \<Rightarrow> Inl e
      | Inr err \<Rightarrow> if length err > 0 then Inr (l1_loss_zeros err) else Inr 0.0)"

text \<open>
  The specification's wording of the normal loss, for comparison: the mean absolute error
  over the entries that the normal-validity mask selects, zero if it selects none.
\<close>

definition masked_normal_mae_spec :: "vec3 list \<Rightarrow> ray_sample list \<Rightarrow> real" where
  "masked_normal_mae_spec surface_points_normal data =
     (let selected = filter (\<lambda>(n, row). row_normal_mask row \<noteq> 0) (zip surface_points_normal data)
      in if selected = [] then 0
         else sum_list (map (\<lambda>(n, row). abs_sum3 (sub3 n (row_true_normal row))) selected)
              / real (3 * length selected))"

definition example_row :: "vec3 \<Rightarrow> real \<Rightarrow> real \<Rightarrow> ray_sample" where
  "example_row n m nm =
     \<lparr>row_rays_o = (0, 0, 0), row_rays_d = (0, 0, 1), row_true_rgb = (1, 1, 1),
      row_true_normal = n, row_mask = m, row_normal_mask = nm\<rparr>"

section \<open>The DiligentMV loader: \<open>models/dataset_diligentMV.py\<close>\<close>

subsection \<open>Matrices\<close>

text \<open>
  A 4x4 matrix whose last row is \<open>[0, 0, 0, 1]\<close> is kept as its rotation block and its
  translation column; every pose the loader builds (\<open>W2C\<close>, its inverse, the interpolated
  pose) has this form.  \<open>np.linalg.inv\<close> is the exact inverse and raises \<open>LinAlgError\<close> on
  a singular matrix.
\<close>

type_synonym pose = "mat3 \<times> vec3"

definition det3 :: "mat3 \<Rightarrow> real" where
  "det3 m = (case m of ((a, b, c), (d, e, f), (g, h, i)) \<Rightarrow>
               a * (e * i - f * h) - b * (d * i - f * g) + c * (d * h - e * g))"

definition inv3 :: "mat3 \<Rightarrow> mat3 option" where
  "inv3 m = (case m of ((a, b, c), (d, e, f), (g, h, i)) \<Rightarrow>
     (let dt = det3 m in
      if dt = 0 then None
      else Some (((e * i - f * h) / dt, (c * h - b * i) / dt, (b * f - c * e) / dt),
                 ((f * g - d * i) / dt, (a * i - c * g) / dt, (c * d - a * f) / dt),
                 ((d * h - e * g) / dt, (b * g - a * h) / dt, (a * e - b * d) / dt))))"

definition mat_vec3 :: "mat3 \<Rightarrow> vec3 \<Rightarrow> vec3" where
  "mat_vec3 m v = (case m of (r1, r2, r3) \<Rightarrow> (dot3 r1 v, dot3 r2 v, dot3 r3 v))"

definition neg3 :: "vec3 \<Rightarrow> vec3" where
  "neg3 v = (case v of (x, y, z) \<Rightarrow> (- x, - y, - z))"

definition add3 :: "vec3 \<Rightarrow> vec3 \<Rightarrow> vec3" where
  "add3 u v = (case u of (u1, u2, u3) \<Rightarrow> case v of (v1, v2, v3) \<Rightarrow> (u1 + v1, u2 + v2, u3 + v3))"

definition inv_pose :: "pose \<Rightarrow> py_error + pose" where
  "inv_pose p = (case p of (R, t) \<Rightarrow>
     (case inv3 R of
        None \<Rightarrow> Inl LinAlgError
      | Some Ri \<Rightarrow> Inr (Ri, neg3 (mat_vec3 Ri t))))"

subsection \<open>Sequencing of steps that can raise\<close>

definition py_bind :: "py_error + 'a \<Rightarrow> ('a \<Rightarrow> py_error + 'b) \<Rightarrow> py_error + 'b" where
  "py_bind m f = (case m of Inl e \<Rightarrow> Inl e | Inr x \<Rightarrow> f x)"

text \<open>A \<open>for\<close> loop that appends one result per element and stops at the first exception.\<close>

fun for_each :: "('a \<Rightarrow> py_error + 'b) \<Rightarrow> 'a list \<Rightarrow> py_error + 'b list" where
  "for_each f [] = Inr []"
| "for_each f (x # xs) =
     (case f x of
        Inl e \<Rightarrow> Inl e
      | Inr y \<Rightarrow> (case for_each f xs of Inl e \<Rightarrow> Inl e | Inr ys \<Rightarrow> Inr (y # ys)))"

text \<open>Indexing with a Python int: a negative index counts from the end.\<close>

definition py_index :: "'a list \<Rightarrow> int \<Rightarrow> py_error + 'a" where
  "py_index xs i =
     (if 0 \<le> i \<and> i < int (length xs) then Inr (xs ! nat i)
      else if i < 0 \<and> - i \<le> int (length xs) then Inr (xs ! nat (int (length xs) + i))
      else Inl IndexError)"

subsection \<open>Inputs of the loader\<close>

record dataset_conf =
  data_dir :: string
  image_dir :: string
  mask_dir :: string
  camera_params :: string
  image_num :: string

text \<open>An image file as \<open>cv.imread\<close> decodes it: height, width and the bytes of its pixels.\<close>

record image_file =
  im_height :: nat
  im_width :: nat
  im_bytes :: "nat list"

text \<open>
  A value of the calibration dictionary that \<open>loadmat\<close> returns: a 3x3 matrix, a 3x1
  column, or anything else.
\<close>

datatype mat_value = Mat3 mat3 | Col3 vec3 | OtherValue

text \<open>
  What the loader finds on disk: the subdirectories of \<open>image_dir\<close> in listing order, each
  with its files (\<open>None\<close> for a file \<open>cv.imread\<close> cannot decode); the names that
  \<open>glob(mask_dir/*.png)\<close> returns; the calibration file (\<open>None\<close> if it is missing).  The
  content of the mask files is no input: the loader never opens them.
\<close>

record dataset_files =
  image_subdirs :: "(string \<times> (string \<times> image_file option) list) list"
  mask_pngs :: "string list"
  calib_mat :: "(string \<rightharpoonup> mat_value) option"

record dataset =
  n_images :: nat
  images_list :: "string list"
  images :: "real list list"
  ds_H :: nat
  ds_W :: nat
  masks_lis :: "string list"
  masks :: "real list list"
  intrinsics_all :: "mat3 option list"
  intrinsics_all_inv :: "mat3 option list"
  W2C_list :: "pose list"
  C2W_list :: "pose list"
  pose_all :: "pose list"
  object_bbox_min :: vec3
  object_bbox_max :: vec3

subsection \<open>\<open>generate_random_mask\<close>\<close>

text \<open>
  \<open>torch.rand(n_images, height, width, 3)\<close> draws one value per element; \<open>rand k\<close> is the
  draw for the element at flat position \<open>k\<close>.  The mask is \<open>(random_values > 0.5).float()\<close>,
  kept here as one flat list per image.
\<close>

definition generate_random_mask :: "(nat \<Rightarrow> real) \<Rightarrow> nat \<Rightarrow> nat \<Rightarrow> nat \<Rightarrow> real list list" where
  "generate_random_mask rand n_images' height width =
     (let threshold = 0.5 in
      map (\<lambda>i. map (\<lambda>j. if rand (i * (height * width * 3) + j) > threshold then 1 else 0)
                   [0..<height * width * 3])
          [0..<n_images'])"

subsection \<open>\<open>Dataset.__init__\<close>\<close>

definition calib_get :: "(string \<rightharpoonup> mat_value) \<Rightarrow> string \<Rightarrow> py_error + mat_value" where
  "calib_get camera_calib_dict key =
     (case camera_calib_dict key of None \<Rightarrow> Inl KeyError | Some v \<Rightarrow> Inr v)"

text \<open>Lines 63 to 71: the subdirectories that hold the file \<open>image_num + '.png'\<close>.\<close>

definition padded_image_num :: "string \<Rightarrow> string" where
  "padded_image_num s = (if length s = 1 then ''00'' @ s else ''0'' @ s)"

definition find_images ::
  "string \<Rightarrow> string \<Rightarrow> (string \<times> (string \<times> image_file option) list) list
     \<Rightarrow> (string \<times> image_file option) list" where
  "find_images image_dir' image_num' directories =
     concat (map (\<lambda>(directory, files).
                    (case map_of files (image_num' @ ''.png'') of
                       None \<Rightarrow> []
                     | Some content \<Rightarrow>
                         [(image_dir' @ ''/'' @ directory @ ''/'' @ image_num' @ ''.png'', content)]))
                 directories)"

text \<open>
  Line 74, \<open>np.stack([cv.imread(im_name) for ...]) / 255.0\<close>: no image at all, or images of
  different shapes (an undecodable one among decoded ones included), make \<open>np.stack\<close> raise
  \<open>ValueError\<close>; if every file is undecodable the division raises \<open>TypeError\<close>.
\<close>

definition stack_images :: "image_file option list \<Rightarrow> py_error + (nat \<times> nat \<times> real list list)" where
  "stack_images ims =
     (case ims of
        [] \<Rightarrow> Inl ValueError
      | first # rest \<Rightarrow>
          if \<forall>im \<in> set ims. im = None then Inl TypeError
          else (case first of
                  None \<Rightarrow> Inl ValueError
                | Some f \<Rightarrow>
                    if \<forall>im \<in> set rest. (case im of None \<Rightarrow> False
                                           | Some g \<Rightarrow> im_height g = im_height f \<and> im_width g = im_width f)
                    then Inr (im_height f, im_width f,
                              map (\<lambda>im. map (\<lambda>b. real b / 255.0) (im_bytes (the im))) ims)
                    else Inl ValueError))"

text \<open>Lines 90 to 94: the shared intrinsics; a zero \<open>K[2, 2]\<close> leaves non-finite entries.\<close>

definition scale_mat3 :: "mat3 \<Rightarrow> real \<Rightarrow> mat3" where
  "scale_mat3 m k = (case m of (r1, r2, r3) \<Rightarrow> (scale3 r1 k, scale3 r2 k, scale3 r3 k))"

definition normalize_K :: "mat_value \<Rightarrow> py_error + mat3 option" where
  "normalize_K kk =
     (case kk of
        Mat3 K \<Rightarrow> (case K of (r1, r2, (g, h, i)) \<Rightarrow>
                     Inr (if i = 0 then None else Some (scale_mat3 K (1 / i))))
      | Col3 v \<Rightarrow> Inl IndexError
      | OtherValue \<Rightarrow> Inl ValueError)"

text \<open>Lines 96 to 103: the first loop only reads the keys \<open>Rc_{i+1}\<close> and \<open>Tc_{i+1}\<close>.\<close>

definition read_view :: "(string \<rightharpoonup> mat_value) \<Rightarrow> nat \<Rightarrow> py_error + (mat_value \<times> mat_value)" where
  "read_view camera_calib_dict view_idx =
     py_bind (calib_get camera_calib_dict (''Rc_'' @ str_nat view_idx)) (\<lambda>rotation.
     py_bind (calib_get camera_calib_dict (''Tc_'' @ str_nat view_idx)) (\<lambda>trans.
     Inr (rotation, trans)))"

text \<open>Lines 114 to 125: one world-to-camera matrix and its inverse per view index.\<close>

definition build_W2C :: "mat_value \<Rightarrow> mat_value \<Rightarrow> py_error + pose" where
  "build_W2C R t =
     (case R of
        Mat3 Rm \<Rightarrow> (case t of Col3 tv \<Rightarrow> Inr (Rm, tv) | _ \<Rightarrow> Inl ValueError)
      | _ \<Rightarrow> Inl ValueError)"

definition view_poses :: "(string \<rightharpoonup> mat_value) \<Rightarrow> nat \<Rightarrow> py_error + (pose \<times> pose)" where
  "view_poses camera_calib_dict view_idx =
     py_bind (read_view camera_calib_dict view_idx) (\<lambda>(R, t).
     py_bind (build_W2C R t) (\<lambda>W2C.
     py_bind (inv_pose W2C) (\<lambda>C2W.
     Inr (W2C, C2W))))"

text \<open>
  Line 149, \<open>torch.inverse(self.intrinsics_all)\<close>: a singular intrinsic matrix raises
  \<open>RuntimeError\<close>; non-finite entries stay non-finite.
\<close>

definition inverse_intrinsics :: "mat3 option \<Rightarrow> py_error + mat3 option" where
  "inverse_intrinsics intrinsics =
     (case intrinsics of
        None \<Rightarrow> Inr None
      | Some K \<Rightarrow> (case inv3 K of None \<Rightarrow> Inl RuntimeError | Some Ki \<Rightarrow> Inr (Some Ki)))"

definition discover_images :: "dataset_conf \<Rightarrow> dataset_files \<Rightarrow> (string \<times> image_file option) list" where
  "discover_images conf files =
     find_images (image_dir conf) (padded_image_num (image_num conf)) (image_subdirs files)"

definition Dataset_init :: "dataset_conf \<Rightarrow> dataset_files \<Rightarrow> (nat \<Rightarrow> real) \<Rightarrow> py_error + dataset" where
  "Dataset_init conf files rand =
     (let found = discover_images conf files;
          images_list' = map fst found;
          n_images' = length images_list'
      in
      py_bind (stack_images (map snd found)) (\<lambda>(height, width, images_np).
      let masks_lis' = sort (mask_pngs files);
          masks' = generate_random_mask rand n_images' height width
      in
      py_bind (case calib_mat files of None \<Rightarrow> Inl FileNotFoundError | Some d \<Rightarrow> Inr d)
        (\<lambda>camera_calib_dict.
      py_bind (calib_get camera_calib_dict ''KK'') (\<lambda>kk.
      py_bind (normalize_K kk) (\<lambda>intrinsics.
      py_bind (for_each (\<lambda>i. read_view camera_calib_dict (i + 1)) [0..<n_images']) (\<lambda>rotation_trans_list.
      py_bind (for_each (view_poses camera_calib_dict) [1..<21]) (\<lambda>poses.
      py_bind (inverse_intrinsics intrinsics) (\<lambda>intrinsics_inv.
      Inr \<lparr>n_images = n_images',
           images_list = images_list',
           images = images_np,
           ds_H = height,
           ds_W = width,
           masks_lis = masks_lis',
           masks = masks',
           intrinsics_all = replicate n_images' intrinsics,
           intrinsics_all_inv = replicate n_images' intrinsics_inv,
           W2C_list = map fst poses,
           C2W_list = map snd poses,
           pose_all = map snd poses,
           object_bbox_min = (- 1.01, - 1.01, - 1.01),
           object_bbox_max = (1.01, 1.01, 1.01)\<rparr>))))))))"

subsection \<open>\<open>Dataset.gen_rays_between\<close>\<close>

text \<open>
  Lines 212 to 229.  \<open>slerp R0 R1 ratio\<close> stands for scipy's
  \<open>Slerp([0, 1], Rot.from_matrix([R0, R1]))(ratio).as_matrix()\<close>, which is no code of this
  repository; it rejects a ratio outside the key times with \<open>ValueError\<close>.
\<close>

definition interpolate_pose ::
  "(mat3 \<Rightarrow> mat3 \<Rightarrow> real \<Rightarrow> mat3) \<Rightarrow> pose list \<Rightarrow> int \<Rightarrow> int \<Rightarrow> real \<Rightarrow> py_error + pose" where
  "interpolate_pose slerp pose_all' idx_0 idx_1 ratio =
     py_bind (py_index pose_all' idx_0) (\<lambda>p0.
     py_bind (py_index pose_all' idx_1) (\<lambda>p1.
     py_bind (inv_pose p0) (\<lambda>pose_0.
     py_bind (inv_pose p1) (\<lambda>pose_1.
     let rot_0 = fst pose_0;
         rot_1 = fst pose_1
     in if ratio < 0 \<or> ratio > 1 then Inl ValueError
        else
          (let rot = slerp rot_0 rot_1 ratio;
               pose = (rot, add3 (scale3 (snd pose_0) (1.0 - ratio)) (scale3 (snd pose_1) ratio))
           in inv_pose pose)))))"

text \<open>
  Lines 205 to 211, the pixel grid.  \<open>self.W // l\<close> is Python's floor division and raises
  \<open>ZeroDivisionError\<close> for \<open>l = 0\<close>; \<open>torch.linspace\<close> refuses a negative number of steps
  with \<open>RuntimeError\<close>, returns the start alone for one step, and evenly spaced points
  otherwise.
\<close>

definition py_floordiv :: "int \<Rightarrow> int \<Rightarrow> py_error + int" where
  "py_floordiv a b = (if b = 0 then Inl ZeroDivisionError else Inr (a div b))"

definition linspace :: "real \<Rightarrow> real \<Rightarrow> int \<Rightarrow> py_error + real list" where
  "linspace start stop steps =
     (if steps < 0 then Inl RuntimeError
      else if steps = 1 then Inr [start]
      else Inr (map (\<lambda>i. start + real i * (stop - start) / real_of_int (steps - 1))
                  [0..<nat steps]))"

text \<open>
  \<open>p / torch.linalg.norm(p, ord=2, dim=-1, keepdim=True)\<close> for one pixel; a zero norm
  leaves a non-finite direction (\<open>None\<close>).
\<close>

definition normalize3 :: "vec3 \<Rightarrow> vec3 option" where
  "normalize3 p = (let n = sqrt (dot3 p p) in if n = 0 then None else Some (scale3 p (1 / n)))"

text \<open>
  The grid of camera-space directions with its two sizes \<open>W // l\<close> and \<open>H // l\<close>: entry
  \<open>i\<close>, \<open>j\<close> belongs to the pixel \<open>(tx[i], ty[j])\<close>, unprojected through the inverse
  intrinsics of view 0 (non-finite intrinsics give non-finite directions).
\<close>

definition pixel_grid_dirs :: "dataset \<Rightarrow> int \<Rightarrow> py_error + (nat \<times> nat \<times> vec3 option list list)" where
  "pixel_grid_dirs ds resolution_level =
     (let l = resolution_level in
      py_bind (py_floordiv (int (ds_W ds)) l) (\<lambda>steps_x.
      py_bind (linspace 0 (real (ds_W ds) - 1) steps_x) (\<lambda>tx.
      py_bind (py_floordiv (int (ds_H ds)) l) (\<lambda>steps_y.
      py_bind (linspace 0 (real (ds_H ds) - 1) steps_y) (\<lambda>ty.
      py_bind (py_index (intrinsics_all_inv ds) 0) (\<lambda>K_inv.
      Inr (length tx, length ty,
           map (\<lambda>pixels_x. map (\<lambda>pixels_y.
                  (case K_inv of
                     None \<Rightarrow> None
                   | Some Ki \<Rightarrow> normalize3 (mat_vec3 Ki (pixels_x, pixels_y, 1)))) ty) tx)))))))"

text \<open>
  Lines 228 to 232.  The \<open>.squeeze()\<close> of line 210 drops every grid dimension of size 1, so
  with a grid of one column or one row the tensor \<open>rays_v\<close> has fewer than three
  dimensions and the index \<open>rays_v[:, :, :, None]\<close> of line 230 raises \<open>IndexError\<close>.
  Otherwise every direction is rotated by \<open>rot\<close>, the origin \<open>trans'\<close> is expanded to the
  grid, and both are returned with the first two axes exchanged (row \<open>j\<close>, column \<open>i\<close>).
\<close>

definition rays_from_pose ::
  "pose \<Rightarrow> nat \<times> nat \<times> vec3 option list list
     \<Rightarrow> py_error + (vec3 list list \<times> vec3 option list list)" where
  "rays_from_pose pose grid =
     (case pose of (rot, trans') \<Rightarrow>
      case grid of (size_x, size_y, dirs) \<Rightarrow>
        if size_x = 1 \<or> size_y = 1 then Inl IndexError
        else Inr (replicate size_y (replicate size_x trans'),
                  map (\<lambda>j. map (\<lambda>i. map_option (mat_vec3 rot) (dirs ! i ! j)) [0..<size_x])
                      [0..<size_y]))"

definition gen_rays_between ::
  "(mat3 \<Rightarrow> mat3 \<Rightarrow> real \<Rightarrow> mat3) \<Rightarrow> dataset \<Rightarrow> int \<Rightarrow> int \<Rightarrow> real \<Rightarrow> int
     \<Rightarrow> py_error + (vec3 list list \<times> vec3 option list list)" where
  "gen_rays_between slerp ds idx_0 idx_1 ratio resolution_level =
     py_bind (pixel_grid_dirs ds resolution_level) (\<lambda>grid.
     py_bind (interpolate_pose slerp (pose_all ds) idx_0 idx_1 ratio) (\<lambda>pose.
     rays_from_pose pose grid))"

subsection \<open>A spherical interpolation of rotations\<close>

text \<open>
  Spherical linear interpolation of two rotation matrices in axis-angle form: the relative
  rotation \<open>R0\<^sup>T R1\<close> is turned about its own axis by \<open>ratio\<close> times its angle.  It is
  the interpolation that \<open>slerp\<close> is instantiated with on concrete rotations whose relative
  rotation is no half-turn.
\<close>

definition transpose3 :: "mat3 \<Rightarrow> mat3" where
  "transpose3 m = (case m of ((a, b, c), (d, e, f), (g, h, i)) \<Rightarrow> ((a, d, g), (b, e, h), (c, f, i)))"

definition mat_mul3 :: "mat3 \<Rightarrow> mat3 \<Rightarrow> mat3" where
  "mat_mul3 A B = (case A of (r1, r2, r3) \<Rightarrow>
     (mat_vec3 (transpose3 B) r1, mat_vec3 (transpose3 B) r2, mat_vec3 (transpose3 B) r3))"

definition rodrigues :: "vec3 \<Rightarrow> real \<Rightarrow> mat3" where
  "rodrigues u phi = (case u of (x, y, z) \<Rightarrow>
     (let c = cos phi; s = sin phi; t = 1 - c in
      ((c + t * x * x, t * x * y - s * z, t * x * z + s * y),
       (t * x * y + s * z, c + t * y * y, t * y * z - s * x),
       (t * x * z - s * y, t * y * z + s * x, c + t * z * z))))"

definition slerp_axis_angle :: "mat3 \<Rightarrow> mat3 \<Rightarrow> real \<Rightarrow> mat3" where
  "slerp_axis_angle R0 R1 ratio =
     (case mat_mul3 (transpose3 R0) R1 of ((a, b, c), (d, e, f), (g, h, i)) \<Rightarrow>
        (let theta = arccos ((a + e + i - 1) / 2);
             s = sin theta
         in if s = 0 then R0
            else mat_mul3 R0
                   (rodrigues (scale3 ((h - f) / 2, (c - g) / 2, (d - b) / 2) (1 / s))
                              (ratio * theta))))"

section \<open>The training loop and early stopping: \<open>Runner.train\<close>\<close>

text \<open>
  The configuration values the loop reads, and the length of \<open>image_perm\<close> (the number of
  images).  The state of the loop is the runner together with the early-stopping fields
  that \<open>train\<close> initialises; \<open>patience_counter\<close> is a local variable that is unbound
  (\<open>None\<close>) until the first validation check assigns it.
\<close>

record train_conf =
  report_freq :: int
  save_freq :: int
  val_freq :: int
  val_mesh_freq :: int
  patience :: int
  image_perm_len :: nat

record train_state =
  run :: runner
  best_val_metric :: "real option"
  best_val_iter :: int
  patience_counter :: "int option"
  early_stop :: bool
  losses_val :: "real list"
  psnrs_val :: "real list"

text \<open>\<open>a % b == 0\<close> on Python ints: \<open>ZeroDivisionError\<close> for \<open>b = 0\<close>.\<close>

definition py_mod_is_zero :: "int \<Rightarrow> int \<Rightarrow> py_error + bool" where
  "py_mod_is_zero a b = (if b = 0 then Inl ZeroDivisionError else Inr (a mod b = 0))"

text \<open>
  Lines 224 to 235, the body of \<open>if self.iter_step % self.val_freq == 0\<close> after
  \<open>validate_image()\<close>.  The second component tells whether the loop is left by \<open>break\<close>.
\<close>

definition early_stopping_check ::
  "train_conf \<Rightarrow> real \<Rightarrow> real \<Rightarrow> train_state \<Rightarrow> py_error + (train_state \<times> bool)" where
  "early_stopping_check conf loss psnr s =
     (let s1 = s\<lparr>losses_val := losses_val s @ [loss], psnrs_val := psnrs_val s @ [psnr]\<rparr> in
      if best_val_metric s1 = None \<or> loss < the (best_val_metric s1) then
        Inr (s1\<lparr>best_val_metric := Some loss,
                 best_val_iter := iter_step (run s1),
                 patience_counter := Some 0\<rparr>, False)
      else
        (case patience_counter s1 of
           None \<Rightarrow> Inl UnboundLocalError
         | Some c \<Rightarrow>
             (let s2 = s1\<lparr>patience_counter := Some (c + 1)\<rparr> in
              if c + 1 \<ge> patience conf then Inr (s2\<lparr>early_stop := True\<rparr>, True)
              else Inr (s2, False))))"

text \<open>
  One pass through the body of the \<open>for\<close> loop, lines 130 to 248, after the test of
  \<open>early_stop\<close>.  \<open>loss n\<close> and \<open>psnr n\<close> are the loss and the PSNR that the rendering step
  yields in the iteration that raises \<open>iter_step\<close> to \<open>n\<close>.  Rendering, logging, writing
  checkpoints, images and meshes act outside this state.
\<close>

definition train_iteration ::
  "train_conf \<Rightarrow> (int \<Rightarrow> real) \<Rightarrow> (int \<Rightarrow> real) \<Rightarrow> train_state \<Rightarrow> py_error + (train_state \<times> bool)" where
  "train_iteration conf loss psnr s =
     (if image_perm_len conf = 0 then Inl ZeroDivisionError
      else
        (let s1 = s\<lparr>run := (run s)\<lparr>iter_step := iter_step (run s) + 1\<rparr>\<rparr>;
             n = iter_step (run s1)
         in
         py_bind (py_mod_is_zero n (report_freq conf)) (\<lambda>report.
         py_bind (py_mod_is_zero n (save_freq conf)) (\<lambda>save.
         py_bind (py_mod_is_zero n (val_freq conf)) (\<lambda>validate.
         py_bind (if validate then early_stopping_check conf (loss n) (psnr n) s1
                  else Inr (s1, False)) (\<lambda>(s2, break).
         if break then Inr (s2, True)
         else
           py_bind (if n = end_iter (run s2) then Inr True
                    else py_mod_is_zero n (val_mesh_freq conf)) (\<lambda>mesh.
           py_bind (update_learning_rate (run s2)) (\<lambda>r3.
           Inr (s2\<lparr>run := r3\<rparr>, False)))))))))"

text \<open>The \<open>for _ in range(res_step)\<close> loop with its two exits.\<close>

fun train_loop ::
  "nat \<Rightarrow> train_conf \<Rightarrow> (int \<Rightarrow> real) \<Rightarrow> (int \<Rightarrow> real) \<Rightarrow> train_state \<Rightarrow> py_error + train_state" where
  "train_loop 0 conf loss psnr s = Inr s"
| "train_loop (Suc k) conf loss psnr s =
     (if early_stop s then Inr s
      else (case train_iteration conf loss psnr s of
              Inl e \<Rightarrow> Inl e
            | Inr (s', break) \<Rightarrow> if break then Inr s' else train_loop k conf loss psnr s'))"

text \<open>\<open>train\<close> up to the end of the loop (lines 115 to 248).\<close>

definition train ::
  "train_conf \<Rightarrow> (int \<Rightarrow> real) \<Rightarrow> (int \<Rightarrow> real) \<Rightarrow> runner \<Rightarrow> py_error + train_state" where
  "train conf loss psnr r =
     py_bind (update_learning_rate r) (\<lambda>r1.
     let res_step = end_iter r1 - iter_step r1;
         s0 = \<lparr>run = r1, best_val_metric = None, best_val_iter = 0, patience_counter = None,
               early_stop = False, losses_val = [], psnrs_val = []\<rparr>
     in train_loop (nat res_step) conf loss psnr s0)"

text \<open>Frequencies by which \<open>%\<close> can divide, and at least one image.\<close>

definition train_conf_ok :: "train_conf \<Rightarrow> bool" where
  "train_conf_ok conf =
     (report_freq conf \<noteq> 0 \<and> save_freq conf \<noteq> 0 \<and> val_freq conf \<noteq> 0
      \<and> val_mesh_freq conf \<noteq> 0 \<and> image_perm_len conf \<noteq> 0)"

text \<open>What stays fixed while the loop runs on: the bounds of the schedule, and no early stop.\<close>

definition loop_static :: "int \<Rightarrow> real \<Rightarrow> train_state \<Rightarrow> bool" where
  "loop_static e w s =
     (end_iter (run s) = e \<and> warm_up_end (run s) = w \<and> 0 \<le> iter_step (run s)
      \<and> \<not> early_stop s)"

definition example_train_conf :: train_conf where
  "example_train_conf =
     \<lparr>report_freq = 100, save_freq = 1000, val_freq = 2, val_mesh_freq = 500,
      patience = 2, image_perm_len = 20\<rparr>"

text \<open>The number denoted by a string of decimal digits, for stating what \<open>int\<close> returns.\<close>

definition digits_value :: "nat \<Rightarrow> string \<Rightarrow> nat" where
  "digits_value acc s = foldl (\<lambda>a c. 10 * a + digit_val c) acc s"

section \<open>Concrete inputs\<close>

definition example_runner :: runner where
  "example_runner =
     \<lparr>iter_step = 50, end_iter = 1100, learning_rate = 1, learning_rate_alpha = 0.05,
      warm_up_end = 100,
      nerf_outside = [''w'' \<mapsto> [1, 2]], sdf_network = [''w'' \<mapsto> [3]],
      deviation_network = [''variance'' \<mapsto> [0.3]], color_network = [''w'' \<mapsto> [4, 5, 6]],
      optimizer = \<lparr>param_groups = [\<lparr>lr = 1, params = [0, 1]\<rparr>, \<lparr>lr = 7, params = [2]\<rparr>],
                   adam_state = Map.empty\<rparr>\<rparr>"

definition example_runner2 :: runner where
  "example_runner2 =
     \<lparr>iter_step = 0, end_iter = 1100, learning_rate = 1, learning_rate_alpha = 0.05,
      warm_up_end = 100,
      nerf_outside = [''w'' \<mapsto> [0, 0]], sdf_network = [''w'' \<mapsto> [0]],
      deviation_network = [''variance'' \<mapsto> [0]], color_network = [''w'' \<mapsto> [0, 0, 0]],
      optimizer = \<lparr>param_groups = [\<lparr>lr = 0, params = [0, 1]\<rparr>, \<lparr>lr = 0, params = [2]\<rparr>],
                   adam_state = Map.empty\<rparr>\<rparr>"

definition example_args :: args where
  "example_args =
     \<lparr>args_conf = ''./confs/base.conf'', args_mode = ''train'', args_mcube_threshold = 0,
      args_is_continue = False, args_checkpoint = 1, args_gpu = 0, args_case = ''bear''\<rparr>"

definition example_calib :: "string \<rightharpoonup> mat_value" where
  "example_calib =
     map_of ((''KK'', Mat3 ((2, 0, 1), (0, 2, 1), (0, 0, 1)))
             # concat (map (\<lambda>i. [(''Rc_'' @ str_nat i, Mat3 ((0, - 1, 0), (1, 0, 0), (0, 0, 1))),
                                   (''Tc_'' @ str_nat i, Col3 (real i, 0, 1))])
                           [1..<21]))"

definition example_image :: image_file where
  "example_image = \<lparr>im_height = 1, im_width = 2, im_bytes = [0, 51, 102, 153, 204, 255]\<rparr>"

definition example_conf :: dataset_conf where
  "example_conf =
     \<lparr>data_dir = ''data'', image_dir = ''data/img'', mask_dir = ''data/mask'',
      camera_params = ''Calib_Results.mat'', image_num = ''1''\<rparr>"

definition example_files :: dataset_files where
  "example_files =
     \<lparr>image_subdirs = [(''view_01'', [(''001.png'', Some example_image)]),
                        (''view_02'', [(''001.png'', Some example_image), (''002.png'', None)]),
                        (''notes'', [])],
      mask_pngs = [''data/mask/b.png'', ''data/mask/a.png''],
      calib_mat = Some example_calib\<rparr>"

definition example_rand :: "nat \<Rightarrow> real" where
  "example_rand k = (if even k then 0.9 else 0.1)"

definition example_dataset :: dataset where
  "example_dataset =
     \<lparr>n_images = 2,
      images_list = [''data/img/view_01/001.png'', ''data/img/view_02/001.png''],
      images = [[0, 1 / 5, 2 / 5, 3 / 5, 4 / 5, 1], [0, 1 / 5, 2 / 5, 3 / 5, 4 / 5, 1]],
      ds_H = 1,
      ds_W = 2,
      masks_lis = [''data/mask/a.png'', ''data/mask/b.png''],
      masks = [[1, 0, 1, 0, 1, 0], [1, 0, 1, 0, 1, 0]],
      intrinsics_all = replicate 2 (Some ((2, 0, 1), (0, 2, 1), (0, 0, 1))),
      intrinsics_all_inv = replicate 2 (Some ((1 / 2, 0, - 1 / 2), (0, 1 / 2, - 1 / 2), (0, 0, 1))),
      W2C_list = map (\<lambda>i. (((0, - 1, 0), (1, 0, 0), (0, 0, 1)), (real i, 0, 1))) [1..<21],
      C2W_list = map (\<lambda>i. (((0, 1, 0), (- 1, 0, 0), (0, 0, 1)), (0, real i, - 1))) [1..<21],
      pose_all = map (\<lambda>i. (((0, 1, 0), (- 1, 0, 0), (0, 0, 1)), (0, real i, - 1))) [1..<21],
      object_bbox_min = (- 1.01, - 1.01, - 1.01),
      object_bbox_max = (1.01, 1.01, 1.01)\<rparr>"

definition example_loss :: "int \<Rightarrow> real" where
  "example_loss n = (if n \<le> 54 then 100 - real_of_int n else 50)"

definition example_psnr :: "int \<Rightarrow> real" where
  "example_psnr n = 20 + real_of_int n"

definition example_calib9 :: "string \<rightharpoonup> mat_value" where
  "example_calib9 =
     map_of ((''KK'', Mat3 ((1, 0, 0), (0, 1, 0), (0, 0, 1)))
             # concat (map (\<lambda>i. [(''Rc_'' @ str_nat i,
                                    Mat3 (if i = 1 then ((1, 0, 0), (0, 1, 0), (0, 0, 1))
                                          else ((0, - 1, 0), (1, 0, 0), (0, 0, 1)))),
                                   (''Tc_'' @ str_nat i, Col3 (real i, 0, 1))])
                           [1..<21]))"

definition example_files9 :: dataset_files where
  "example_files9 =
     \<lparr>image_subdirs =
        [(''view_01'', [(''001.png'',
            Some \<lparr>im_height = 2, im_width = 2,
                  im_bytes = [0, 51, 102, 153, 204, 255, 0, 51, 102, 153, 204, 255]\<rparr>)])],
      mask_pngs = [],
      calib_mat = Some example_calib9\<rparr>"

definition example_dataset9 :: dataset where
  "example_dataset9 =
     \<lparr>n_images = 1,
      images_list = [''data/img/view_01/001.png''],
      images = [[0, 1 / 5, 2 / 5, 3 / 5, 4 / 5, 1, 0, 1 / 5, 2 / 5, 3 / 5, 4 / 5, 1]],
      ds_H = 2,
      ds_W = 2,
      masks_lis = [],
      masks = [[1, 0, 1, 0, 1, 0, 1, 0, 1, 0, 1, 0]],
      intrinsics_all = [Some ((1, 0, 0), (0, 1, 0), (0, 0, 1))],
      intrinsics_all_inv = [Some ((1, 0, 0), (0, 1, 0), (0, 0, 1))],
      W2C_list = map (\<lambda>i. (if i = 1 then ((1, 0, 0), (0, 1, 0), (0, 0, 1))
                             else ((0, - 1, 0), (1, 0, 0), (0, 0, 1)), (real i, 0, 1))) [1..<21],
      C2W_list = map (\<lambda>i. if i = 1 then (((1, 0, 0), (0, 1, 0), (0, 0, 1)), (- 1, 0, - 1))
                            else (((0, 1, 0), (- 1, 0, 0), (0, 0, 1)), (0, real i, - 1))) [1..<21],
      pose_all = map (\<lambda>i. if i = 1 then (((1, 0, 0), (0, 1, 0), (0, 0, 1)), (- 1, 0, - 1))
                            else (((0, 1, 0), (- 1, 0, 0), (0, 0, 1)), (0, real i, - 1))) [1..<21],
      object_bbox_min = (- 1.01, - 1.01, - 1.01),
      object_bbox_max = (1.01, 1.01, 1.01)\<rparr>"

section \<open>The learning-rate schedule\<close>

text \<open>
  Claim C5.  Before \<open>warm_up_end\<close> the learning-rate factor is \<open>t / warm_up_end\<close>; from
  \<open>warm_up_end\<close> on it is \<open>(cos(pi * progress) + 1) / 2 * (1 - alpha) + alpha\<close> with
  \<open>progress = (t - warm_up_end) / (end_iter - warm_up_end)\<close>.  For \<open>warm_up_end = 100\<close>,
  \<open>end_iter = 1100\<close> and \<open>alpha = 0.05\<close> the factor is 0.5 at \<open>t = 50\<close>, 1 at \<open>t = 100\<close>
  and 0.05 at \<open>t = 1100\<close>.  \<open>update_learning_rate\<close> stores \<open>learning_rate * factor\<close> in
  every parameter group of the optimizer.
\<close>

theorem update_learning_rate_schedule:
  "(0 \<le> iter_step r \<and> real_of_int (iter_step r) < warm_up_end r \<longrightarrow>
      learning_factor r = Inr (real_of_int (iter_step r) / warm_up_end r))
   \<and> (\<not> real_of_int (iter_step r) < warm_up_end r \<and> real_of_int (end_iter r) \<noteq> warm_up_end r \<longrightarrow>
      learning_factor r =
        Inr ((cos (pi * ((real_of_int (iter_step r) - warm_up_end r)
                         / (real_of_int (end_iter r) - warm_up_end r))) + 1) / 2
             * (1 - learning_rate_alpha r) + learning_rate_alpha r))
   \<and> (warm_up_end r = 100 \<and> end_iter r = 1100 \<and> learning_rate_alpha r = 0.05 \<longrightarrow>
        (iter_step r = 50 \<longrightarrow> learning_factor r = Inr 0.5)
      \<and> (iter_step r = 100 \<longrightarrow> learning_factor r = Inr 1.0)
      \<and> (iter_step r = 1100 \<longrightarrow> learning_factor r = Inr 0.05))
   \<and> (\<forall>f. learning_factor r = Inr f \<longrightarrow>
        (\<exists>r'. update_learning_rate r = Inr r'
           \<and> length (param_groups (optimizer r')) = length (param_groups (optimizer r))
           \<and> (\<forall>g \<in> set (param_groups (optimizer r')). lr g = learning_rate r * f)))"
proof (intro conjI impI allI)
  assume c: "warm_up_end r = 100 \<and> end_iter r = 1100 \<and> learning_rate_alpha r = 0.05"
  then have w: "warm_up_end r = 100" and e: "end_iter r = 1100"
    and a: "learning_rate_alpha r = 5 / 100" by simp_all
  show "learning_factor r = Inr 0.5" if "iter_step r = 50"
    unfolding learning_factor_def Let_def w e a that by simp
  show "learning_factor r = Inr 1.0" if "iter_step r = 100"
    unfolding learning_factor_def Let_def w e a that by simp
  show "learning_factor r = Inr 0.05" if "iter_step r = 1100"
    unfolding learning_factor_def Let_def w e a that by simp
next
  assume "0 \<le> iter_step r \<and> real_of_int (iter_step r) < warm_up_end r"
  then show "learning_factor r = Inr (real_of_int (iter_step r) / warm_up_end r)"
    by (auto simp: learning_factor_def)
next
  assume "\<not> real_of_int (iter_step r) < warm_up_end r \<and> real_of_int (end_iter r) \<noteq> warm_up_end r"
  then show "learning_factor r =
        Inr ((cos (pi * ((real_of_int (iter_step r) - warm_up_end r)
                         / (real_of_int (end_iter r) - warm_up_end r))) + 1) / 2
             * (1 - learning_rate_alpha r) + learning_rate_alpha r)"
    by (auto simp: learning_factor_def Let_def)
next
  fix f assume "learning_factor r = Inr f"
  then show "\<exists>r'. update_learning_rate r = Inr r'
           \<and> length (param_groups (optimizer r')) = length (param_groups (optimizer r))
           \<and> (\<forall>g \<in> set (param_groups (optimizer r')). lr g = learning_rate r * f)"
    by (auto simp: update_learning_rate_def)
qed

theorem update_learning_rate_schedule_witness:
  "0 \<le> iter_step example_runner
   \<and> real_of_int (iter_step example_runner) < warm_up_end example_runner
   \<and> learning_factor example_runner = Inr 0.5
   \<and> \<not> real_of_int (iter_step (example_runner\<lparr>iter_step := 1100\<rparr>))
         < warm_up_end (example_runner\<lparr>iter_step := 1100\<rparr>)
   \<and> real_of_int (end_iter (example_runner\<lparr>iter_step := 1100\<rparr>))
       \<noteq> warm_up_end (example_runner\<lparr>iter_step := 1100\<rparr>)
   \<and> learning_factor (example_runner\<lparr>iter_step := 1100\<rparr>) = Inr 0.05
   \<and> map lr (param_groups (optimizer (projr (update_learning_rate example_runner)))) = [0.5, 0.5]"
  using update_learning_rate_schedule [of example_runner]
    update_learning_rate_schedule [of "example_runner\<lparr>iter_step := 1100\<rparr>"]
  by (simp add: example_runner_def update_learning_rate_def)

section \<open>The near/far window\<close>

lemma dot3_self_nonzero: "d \<noteq> (0, 0, 0) \<Longrightarrow> dot3 d d \<noteq> 0"
proof -
  assume d: "d \<noteq> (0, 0, 0)"
  obtain x y z where xyz: "d = (x, y, z)" by (cases d) auto
  have "x * x + y * y + z * z \<noteq> 0"
    using d xyz by (auto simp: add_nonneg_eq_0_iff)
  then show ?thesis by (simp add: dot3_def xyz)
qed

text \<open>
  Claim C6.  For every batch of rays (origins \<open>o\<close>, nonzero directions \<open>d\<close>),
  \<open>near_far_from_sphere\<close> returns \<open>near = t_mid - 1\<close> and \<open>far = t_mid + 1\<close> with
  \<open>t_mid = - b / (2 a)\<close>, \<open>a = |d|^2\<close>, \<open>b = 2 (o . d)\<close>, so that \<open>far - near = 2\<close> for every
  ray, whatever its origin and direction.
\<close>

theorem near_far_from_sphere_width:
  assumes "length rays_o = length rays_d" and "\<forall>d \<in> set rays_d. d \<noteq> (0, 0, 0)"
  shows "\<exists>nf. near_far_from_sphere rays_o rays_d = Inr (map Some nf)
            \<and> length nf = length rays_d
            \<and> (\<forall>i < length nf.
                  fst (nf ! i) = - (2 * dot3 (rays_o ! i) (rays_d ! i)) / (2 * dot3 (rays_d ! i) (rays_d ! i)) - 1
                \<and> snd (nf ! i) = - (2 * dot3 (rays_o ! i) (rays_d ! i)) / (2 * dot3 (rays_d ! i) (rays_d ! i)) + 1
                \<and> snd (nf ! i) - fst (nf ! i) = 2)"
proof -
  let ?mid = "\<lambda>(o', d). - (2 * dot3 o' d) / (2 * dot3 d d)"
  let ?nf = "map (\<lambda>p. (?mid p - 1, ?mid p + 1)) (zip rays_o rays_d)"
  have "near_far_ray o' d = Some (?mid (o', d) - 1, ?mid (o', d) + 1)"
    if "(o', d) \<in> set (zip rays_o rays_d)" for o' d
  proof -
    have "d \<in> set rays_d" using that by (rule set_zip_rightD)
    then have "d \<noteq> (0, 0, 0)" using assms(2) by blast
    then show ?thesis using dot3_self_nonzero by (simp add: near_far_ray_def Let_def)
  qed
  then have "map (\<lambda>(o', d). near_far_ray o' d) (zip rays_o rays_d) = map Some ?nf"
    by auto
  then have "near_far_from_sphere rays_o rays_d = Inr (map Some ?nf)"
    using assms(1) by (simp add: near_far_from_sphere_def)
  moreover have "length ?nf = length rays_d" using assms(1) by simp
  moreover have "\<forall>i < length ?nf.
                  fst (?nf ! i) = - (2 * dot3 (rays_o ! i) (rays_d ! i)) / (2 * dot3 (rays_d ! i) (rays_d ! i)) - 1
                \<and> snd (?nf ! i) = - (2 * dot3 (rays_o ! i) (rays_d ! i)) / (2 * dot3 (rays_d ! i) (rays_d ! i)) + 1
                \<and> snd (?nf ! i) - fst (?nf ! i) = 2"
    using assms(1) by simp
  ultimately show ?thesis by blast
qed

theorem near_far_from_sphere_width_witness:
  "length [(0, 0, 0), (1, 2, 3) :: vec3] = length [(0, 0, 1), (2, 0, 0) :: vec3]
   \<and> (0, 0, 1) \<noteq> (0 :: real, 0 :: real, 0 :: real)
   \<and> (2, 0, 0) \<noteq> (0 :: real, 0 :: real, 0 :: real)
   \<and> near_far_from_sphere [(0, 0, 0), (1, 2, 3)] [(0, 0, 1), (2, 0, 0)]
       = Inr [Some (- 1, 1), Some (- 3 / 2, 1 / 2)]"
  using near_far_from_sphere_width [of "[(0, 0, 0), (1, 2, 3)]" "[(0, 0, 1), (2, 0, 0)]"]
  by (simp add: near_far_from_sphere_def near_far_ray_def dot3_def Let_def)

section \<open>Checkpoint names and the checkpoint round trip\<close>

lemma digit_cases: "d < 10 \<Longrightarrow> d \<in> {0, 1, 2, 3, 4, 5, 6, 7, 8, 9 :: nat}"
  by auto

lemma digit_char_props:
  assumes "d < 10"
  shows "is_digit (digit_char d)" and "digit_val (digit_char d) = d"
    and "\<not> is_space (digit_char d)" and "digit_char d \<noteq> CHR ''-''" and "digit_char d \<noteq> CHR ''+''"
  using digit_cases [OF assms]
  by (auto simp: digit_char_def is_digit_def digit_val_def is_space_def)

lemma zero_char_props:
  "is_digit (CHR ''0'')" "digit_val (CHR ''0'') = 0" "\<not> is_space (CHR ''0'')"
  by (simp_all add: is_digit_def digit_val_def is_space_def)

lemma parse_digits_all_digits:
  "\<forall>c \<in> set s. is_digit c \<Longrightarrow> s \<noteq> [] \<or> p \<Longrightarrow> parse_digits s acc p = Some (digits_value acc s)"
proof (induction s arbitrary: acc p)
  case Nil
  then show ?case by (simp add: digits_value_def)
next
  case (Cons c cs)
  have "parse_digits cs (10 * acc + digit_val c) True = Some (digits_value (10 * acc + digit_val c) cs)"
    using Cons.IH [of True "10 * acc + digit_val c"] Cons.prems(1) by simp
  then show ?case using Cons.prems(1) by (simp add: digits_value_def)
qed

lemma str_nat_digits: "\<forall>c \<in> set (str_nat n). is_digit c \<and> \<not> is_space c \<and> c \<noteq> CHR ''-'' \<and> c \<noteq> CHR ''+''"
proof (induction n rule: str_nat.induct)
  case (1 n)
  show ?case
  proof (cases "n < 10")
    case True
    then show ?thesis using digit_char_props [of n] by (simp add: str_nat.simps [of n])
  next
    case False
    have "n mod 10 < 10" by simp
    then show ?thesis using False 1 digit_char_props [of "n mod 10"]
      by (simp add: str_nat.simps [of n])
  qed
qed

lemma str_nat_nonempty: "str_nat n \<noteq> []"
  by (subst str_nat.simps) simp

lemma digits_value_str_nat: "digits_value 0 (str_nat n) = n"
proof (induction n rule: str_nat.induct)
  case (1 n)
  show ?case
  proof (cases "n < 10")
    case True
    then show ?thesis using digit_char_props(2) [of n]
      by (simp add: str_nat.simps [of n] digits_value_def)
  next
    case False
    have "n mod 10 < 10" by simp
    then have "digit_val (digit_char (n mod 10)) = n mod 10" by (rule digit_char_props(2))
    then show ?thesis using False 1
      by (simp add: str_nat.simps [of n] digits_value_def)
  qed
qed

lemma digits_value_zeros: "digits_value 0 (replicate k (CHR ''0'') @ s) = digits_value 0 s"
  by (induction k) (simp_all add: digits_value_def zero_char_props)

lemma py_strip_no_space:
  assumes "\<forall>c \<in> set s. \<not> is_space c"
  shows "py_strip s = s"
proof -
  have a: "dropWhile is_space t = t" if "\<forall>c \<in> set t. \<not> is_space c" for t
    using that by (cases t) auto
  show ?thesis using assms by (simp add: py_strip_def a)
qed

lemma sign_split_unsigned:
  "s \<noteq> [] \<Longrightarrow> hd s \<noteq> CHR ''-'' \<Longrightarrow> hd s \<noteq> CHR ''+'' \<Longrightarrow>
   (case s of c # cs \<Rightarrow> if c = CHR ''-'' then (- 1, cs)
                              else if c = CHR ''+'' then (1, cs) else (1, s)
            | [] \<Rightarrow> (1 :: int, s)) = (1, s)"
  by (cases s) simp_all

lemma py_int_digits:
  assumes "s \<noteq> []" and "\<forall>c \<in> set s. is_digit c \<and> \<not> is_space c \<and> c \<noteq> CHR ''-'' \<and> c \<noteq> CHR ''+''"
  shows "py_int s = Inr (int (digits_value 0 s))"
proof -
  have strip: "py_strip s = s" using assms(2) by (intro py_strip_no_space) blast
  have "hd s \<in> set s" using assms(1) by (rule hd_in_set)
  then have "hd s \<noteq> CHR ''-''" "hd s \<noteq> CHR ''+''" using assms(2) by blast+
  then have sg: "(case s of c # cs \<Rightarrow> if c = CHR ''-'' then (- 1, cs)
                              else if c = CHR ''+'' then (1, cs) else (1, s)
            | [] \<Rightarrow> (1 :: int, s)) = (1, s)"
    using assms(1) by (intro sign_split_unsigned)
  have p: "parse_digits s 0 False = Some (digits_value 0 s)"
    using assms by (intro parse_digits_all_digits) blast+
  show ?thesis
    unfolding py_int_def strip Let_def sg by (simp add: p)
qed

lemma py_int_padded:
  "py_int (replicate k (CHR ''0'') @ str_nat n) = Inr (int n)"
proof -
  let ?s = "replicate k (CHR ''0'') @ str_nat n"
  have d: "\<forall>c \<in> set ?s. is_digit c \<and> \<not> is_space c \<and> c \<noteq> CHR ''-'' \<and> c \<noteq> CHR ''+''"
  proof
    fix c assume "c \<in> set ?s"
    then consider "c = CHR ''0''" | "c \<in> set (str_nat n)" by auto
    then show "is_digit c \<and> \<not> is_space c \<and> c \<noteq> CHR ''-'' \<and> c \<noteq> CHR ''+''"
    proof cases
      case 1 then show ?thesis by (simp add: zero_char_props)
    next
      case 2 then show ?thesis using str_nat_digits [of n] by blast
    qed
  qed
  have ne: "?s \<noteq> []" using str_nat_nonempty by simp
  have "py_int ?s = Inr (int (digits_value 0 ?s))" using ne d by (rule py_int_digits)
  then show ?thesis by (simp only: digits_value_zeros digits_value_str_nat)
qed

lemma slice_last3_pth: "slice_last3 (pre @ ''.pth'') = ''pth''"
  by (simp add: slice_last3_def)

lemma slice_5_m4_ckpt: "slice_5_m4 (''ckpt_'' @ f @ ''.pth'') = f"
  by (simp add: slice_5_m4_def)

lemma checkpoint_name_parts:
  assumes "0 \<le> n"
  shows "slice_last3 (checkpoint_name n) = ''pth''"
    and "slice_5_m4 (checkpoint_name n) = format_0r6d n"
    and "py_int (format_0r6d n) = Inr n"
proof -
  have "checkpoint_name n = (''ckpt_'' @ format_0r6d n) @ ''.pth''"
    by (simp add: checkpoint_name_def)
  then show "slice_last3 (checkpoint_name n) = ''pth''"
    by (simp only: slice_last3_pth)
  show "slice_5_m4 (checkpoint_name n) = format_0r6d n"
    unfolding checkpoint_name_def by (rule slice_5_m4_ckpt)
  have "format_0r6d n = replicate (6 - length (str_nat (nat n))) (CHR ''0'') @ str_nat (nat n)"
    using assms by (simp add: format_0r6d_def str_int_def)
  then show "py_int (format_0r6d n) = Inr n"
    using assms by (simp add: py_int_padded)
qed

lemma length_str_nat: "n < 10 ^ k \<Longrightarrow> 0 < k \<Longrightarrow> length (str_nat n) \<le> k"
proof (induction n arbitrary: k rule: str_nat.induct)
  case (1 n)
  show ?case
  proof (cases "n < 10")
    case True
    then show ?thesis using 1 by (simp add: str_nat.simps [of n])
  next
    case False
    then obtain k' where k: "k = Suc k'" using 1(3) by (cases k) auto
    have "k' > 0" using False 1(2) k by (cases k') auto
    moreover have "n div 10 < 10 ^ k'" using 1(2) k by (simp add: less_mult_imp_div_less mult.commute)
    ultimately have "length (str_nat (n div 10)) \<le> k'" using 1(1) [OF False] by blast
    then show ?thesis using False k by (simp add: str_nat.simps [of n])
  qed
qed

lemma length_format: "0 \<le> n \<Longrightarrow> n < 10 ^ 6 \<Longrightarrow> length (format_0r6d n) = 6"
proof -
  assume "0 \<le> n" "n < 10 ^ 6"
  then have "nat n < 10 ^ 6" by (simp add: nat_less_iff)
  then have "length (str_nat (nat n)) \<le> 6" by (intro length_str_nat) auto
  then show ?thesis using \<open>0 \<le> n\<close> by (simp add: format_0r6d_def str_int_def)
qed

lemma zip_params_restore:
  "map params gs' = map params gs \<Longrightarrow>
   map (\<lambda>(s, c). s\<lparr>params := params c\<rparr>) (zip gs gs') = gs"
proof (induction gs arbitrary: gs')
  case Nil then show ?case by simp
next
  case (Cons g gs)
  then obtain h hs where "gs' = h # hs" by (cases gs') auto
  with Cons show ?case by auto
qed

lemma optimizer_load_same:
  "map params (param_groups cur) = map params (param_groups sd) \<Longrightarrow>
   optimizer_load_state_dict cur sd = Inr sd"
proof -
  assume a: "map params (param_groups cur) = map params (param_groups sd)"
  then have l: "length (param_groups sd) = length (param_groups cur)"
    by (metis length_map)
  have "map (length \<circ> params) (param_groups sd) = map (length \<circ> params) (param_groups cur)"
    using a by (metis map_map)
  then have m: "map (\<lambda>g. length (params g)) (param_groups sd) = map (\<lambda>g. length (params g)) (param_groups cur)"
    by (simp add: comp_def)
  show ?thesis
    using l m zip_params_restore [OF a] by (simp add: optimizer_load_state_dict_def)
qed

lemma module_load_self: "module_load_state_dict sd sd = Inr sd"
  by (simp add: module_load_state_dict_def)

lemma same_architecture_refl: "same_architecture r r"
  by (simp add: same_architecture_def module_load_self)

lemma saved_lookup:
  "map_of (the (save_checkpoint r dir)) (checkpoint_name (iter_step r)) =
     Some (CheckpointFile \<lparr>ck_nerf = nerf_outside r,
                         ck_sdf_network_fine = sdf_network r,
                         ck_variance_network_fine = deviation_network r,
                         ck_color_network_fine = color_network r,
                         ck_optimizer = optimizer r,
                         ck_iter_step = iter_step r\<rparr>)"
  by (simp add: save_checkpoint_def Let_def update_conv')

lemma save_Some: "\<exists>d. save_checkpoint r dir = Some d"
  by (simp add: save_checkpoint_def Let_def)

text \<open>
  Claim C7.  For every runner state, \<open>save_checkpoint\<close> followed by \<open>load_checkpoint\<close> of
  the file it wrote restores the parameters of the four networks, the optimizer state and
  the iteration counter exactly as saved (into the same runner, or into one freshly built
  with the same architecture); the file written at iteration \<open>n\<close> is named
  \<open>ckpt_\<close>, then \<open>n\<close> padded with zeros to six digits, then \<open>.pth\<close>.
\<close>

theorem save_load_checkpoint_roundtrip:
  "same_architecture r r
   \<and> (same_architecture r' r \<longrightarrow>
        load_checkpoint r' (save_checkpoint r dir) (checkpoint_name (iter_step r))
          = Inr (r'\<lparr>nerf_outside := nerf_outside r, sdf_network := sdf_network r,
                    deviation_network := deviation_network r, color_network := color_network r,
                    optimizer := optimizer r, iter_step := iter_step r\<rparr>))
   \<and> checkpoint_name (iter_step r) \<in> fst ` set (the (save_checkpoint r dir))
   \<and> (0 \<le> iter_step r \<longrightarrow>
        checkpoint_name (iter_step r) = ''ckpt_'' @ format_0r6d (iter_step r) @ ''.pth''
        \<and> py_int (format_0r6d (iter_step r)) = Inr (iter_step r)
        \<and> (\<exists>k. format_0r6d (iter_step r) = replicate k (CHR ''0'') @ str_int (iter_step r))
        \<and> (iter_step r < 10 ^ 6 \<longrightarrow> length (format_0r6d (iter_step r)) = 6))"
proof (intro conjI impI)
  show "same_architecture r r" by (rule same_architecture_refl)
  show "load_checkpoint r' (save_checkpoint r dir) (checkpoint_name (iter_step r))
          = Inr (r'\<lparr>nerf_outside := nerf_outside r, sdf_network := sdf_network r,
                    deviation_network := deviation_network r, color_network := color_network r,
                    optimizer := optimizer r, iter_step := iter_step r\<rparr>)"
    if a: "same_architecture r' r"
  proof -
    obtain d where d: "save_checkpoint r dir = Some d" using save_Some by blast
    have lk: "map_of d (checkpoint_name (iter_step r)) =
     Some (CheckpointFile \<lparr>ck_nerf = nerf_outside r,
                         ck_sdf_network_fine = sdf_network r,
                         ck_variance_network_fine = deviation_network r,
                         ck_color_network_fine = color_network r,
                         ck_optimizer = optimizer r,
                         ck_iter_step = iter_step r\<rparr>)"
      using saved_lookup [of r dir] d by simp
    have o: "optimizer_load_state_dict (optimizer r') (optimizer r) = Inr (optimizer r)"
      using a by (intro optimizer_load_same) (simp add: same_architecture_def)
    show ?thesis
      using a o by (simp add: load_checkpoint_def d lk same_architecture_def)
  qed
  show "checkpoint_name (iter_step r) \<in> fst ` set (the (save_checkpoint r dir))"
    using saved_lookup [of r dir] by (metis map_of_eq_None_iff option.distinct(1))
  show "checkpoint_name (iter_step r) = ''ckpt_'' @ format_0r6d (iter_step r) @ ''.pth''"
    by (simp add: checkpoint_name_def)
  show "py_int (format_0r6d (iter_step r)) = Inr (iter_step r)" if "0 \<le> iter_step r"
    using that by (rule checkpoint_name_parts(3))
  show "\<exists>k. format_0r6d (iter_step r) = replicate k (CHR ''0'') @ str_int (iter_step r)"
    by (auto simp: format_0r6d_def)
  show "length (format_0r6d (iter_step r)) = 6" if "0 \<le> iter_step r" "iter_step r < 10 ^ 6"
    using that by (rule length_format)
qed

lemma checkpoint_name_50: "checkpoint_name 50 = ''ckpt_000050.pth''"
  by code_simp

lemma example_same_architecture: "same_architecture example_runner2 example_runner"
  by (simp add: same_architecture_def example_runner2_def example_runner_def
        module_load_state_dict_def)

theorem save_load_checkpoint_roundtrip_witness:
  "same_architecture example_runner2 example_runner
   \<and> 0 \<le> iter_step example_runner \<and> iter_step example_runner < 10 ^ 6
   \<and> load_checkpoint example_runner2 (save_checkpoint example_runner None) ''ckpt_000050.pth''
       = Inr (example_runner\<lparr>iter_step := 50\<rparr>)
   \<and> length (format_0r6d (iter_step example_runner)) = 6
   \<and> py_int (format_0r6d (iter_step example_runner)) = Inr 50"
  using save_load_checkpoint_roundtrip [of example_runner example_runner2 None]
    example_same_architecture checkpoint_name_50
  by (simp add: example_runner_def example_runner2_def)

section \<open>Checkpoint selection at construction\<close>

lemma model_name_ok_50: "model_name_ok 1100 ''ckpt_000050.pth'' = Inr True"
  by code_simp

lemma latest_model_name_single:
  "latest_model_name 1100 (Some [(''ckpt_000050.pth'', X)]) = Inr ''ckpt_000050.pth''"
  by (simp add: latest_model_name_def model_name_ok_50)

lemma Runner_init_with_selector:
  "Runner_init example_runner2 (save_checkpoint example_runner None) False 1 = Inr example_runner"
proof -
  have e: "end_iter (example_runner2\<lparr>iter_step := 0\<rparr>) = 1100" by (simp add: example_runner2_def)
  have i: "iter_step example_runner = 50" by (simp add: example_runner_def)
  have d: "save_checkpoint example_runner None = Some [(''ckpt_000050.pth'', CheckpointFile
             \<lparr>ck_nerf = nerf_outside example_runner,
              ck_sdf_network_fine = sdf_network example_runner,
              ck_variance_network_fine = deviation_network example_runner,
              ck_color_network_fine = color_network example_runner,
              ck_optimizer = optimizer example_runner,
              ck_iter_step = iter_step example_runner\<rparr>)]"
    by (simp add: save_checkpoint_def Let_def i checkpoint_name_50)
  show ?thesis
    unfolding Runner_init_def Let_def e d latest_model_name_single
    by (simp add: example_runner_def example_runner2_def load_checkpoint_def
          module_load_state_dict_def optimizer_load_state_dict_def)
qed

text \<open>
  Without \<open>--is_continue\<close> the runner that \<open>__main__\<close> constructs is the freshly built one,
  whatever \<open>--checkpoint\<close> says and whatever the checkpoints directory holds.
\<close>

lemma main_runner_without_continue:
  "main_runner build dir (a\<lparr>args_is_continue := False, args_checkpoint := c\<rparr>)
     = Inr ((build (args_conf a) (args_mode a) (args_case a))\<lparr>iter_step := 0\<rparr>)"
  by (simp add: main_runner_def Runner_init_def)

text \<open>
  Claim C1.  The claim: a nonzero \<open>--checkpoint\<close> on the command line, even without
  \<open>--is_continue\<close>, makes the constructed runner restore the latest checkpoint.  On the
  code: with \<open>--checkpoint 1\<close>, no \<open>--is_continue\<close> and \<open>ckpt_000050.pth\<close> in the checkpoints
  directory, \<open>__main__\<close> constructs the freshly built runner (iteration 0, nothing
  restored), although \<open>Runner.__init__\<close>, given the selector, restores the checkpoint.
\<close>

theorem main_runner_checkpoint_flag_unused:
  "args_checkpoint example_args = 1 \<and> args_is_continue example_args = False
   \<and> main_runner (\<lambda>conf mode case'. example_runner2)
        (save_checkpoint example_runner None) example_args = Inr example_runner2
   \<and> iter_step example_runner2 = 0
   \<and> Runner_init example_runner2 (save_checkpoint example_runner None)
        (args_is_continue example_args) (args_checkpoint example_args) = Inr example_runner
   \<and> iter_step example_runner = 50"
  using Runner_init_with_selector
  by (simp add: main_runner_def Runner_init_def example_args_def example_runner2_def
        example_runner_def)

section \<open>Guards of the mask-normalised divisors\<close>

lemma binarize_nonneg: "0 \<le> sum_list (binarize_mask w m)"
  by (auto simp: binarize_mask_def intro!: sum_list_nonneg)

lemma validate_zero:
  "\<forall>p \<in> set pixel_masks. to_int (fst p) = 0 \<Longrightarrow> validate_image_psnr_divisor pixel_masks = 0"
proof -
  assume a: "\<forall>p \<in> set pixel_masks. to_int (fst p) = 0"
  have "validate_image_mask_gt pixel_masks = map (\<lambda>p. 0) pixel_masks"
    unfolding validate_image_mask_gt_def using a by (intro map_cong) auto
  then have "sum_list (validate_image_mask_gt pixel_masks) = 0" by simp
  then show ?thesis by (simp add: validate_image_psnr_divisor_def)
qed

text \<open>
  Claim C3, as amended.  The mask sums of the training loop and of \<open>evaluate\<close> both carry
  the additive \<open>1e-5\<close> (\<open>mask.sum() + 1e-5\<close>), so the divisors built from them are
  positive for every mask.  Only the PSNR divisor of \<open>validate_image\<close>,
  \<open>mask_gt.sum() * 3.0\<close>, has no such guard: it is zero for an image without a valid mask
  pixel.
\<close>

theorem mask_sum_guards:
  "train_mask_sum w data = sum_list (binarize_mask w (map row_mask data)) + 1 / 100000
   \<and> train_mask_sum w data \<ge> 1 / 100000
   \<and> train_psnr_divisor w data > 0
   \<and> evaluate_mask_sum w data = sum_list (binarize_mask w (map row_mask data)) + 1 / 100000
   \<and> evaluate_psnr_divisor w data > 0
   \<and> ((\<forall>p \<in> set pixel_masks. to_int (fst p) = 0) \<longrightarrow> validate_image_psnr_divisor pixel_masks = 0)"
  using binarize_nonneg [of w "map row_mask data"] validate_zero [of pixel_masks]
  by (auto simp: train_mask_sum_def train_psnr_divisor_def evaluate_mask_sum_def evaluate_psnr_divisor_def)

theorem mask_sum_guards_witness:
  "to_int (fst ((0.4, 0.4, 0.4) :: vec3)) = 0 \<and> to_int (fst ((0, 1, 1) :: vec3)) = 0
   \<and> validate_image_psnr_divisor [(0.4, 0.4, 0.4), (0, 1, 1)] = 0
   \<and> train_psnr_divisor 1 [example_row (0, 0, 1) 0 0, example_row (0, 0, 1) 0.3 1] = 3 / 100000"
  using mask_sum_guards [of 1 "[example_row (0, 0, 1) 0 0, example_row (0, 0, 1) 0.3 1]" "[(0.4, 0.4, 0.4), (0, 1, 1)]"]
  by (simp add: to_int_def train_psnr_divisor_def train_mask_sum_def binarize_mask_def example_row_def)

text \<open>
  The claim as stated also denies \<open>evaluate\<close> the guard, so that an all-zero mask would make
  its divisor zero.  On a batch whose binarised mask is all zero the divisor of \<open>evaluate\<close>
  is \<open>3e-5\<close>.
\<close>

theorem evaluate_divisor_counterexample:
  "binarize_mask 1 (map row_mask [example_row (0, 0, 1) 0 0, example_row (0, 0, 1) 0.3 1]) = [0, 0]
   \<and> evaluate_psnr_divisor 1 [example_row (0, 0, 1) 0 0, example_row (0, 0, 1) 0.3 1] = 3 / 100000
   \<and> evaluate_psnr_divisor 1 [example_row (0, 0, 1) 0 0, example_row (0, 0, 1) 0.3 1] \<noteq> 0"
  by (simp add: evaluate_psnr_divisor_def evaluate_mask_sum_def binarize_mask_def example_row_def)

section \<open>The normal loss\<close>

lemma abs_sum3_masked:
  "m = 0 \<or> m = 1 \<Longrightarrow>
   abs_sum3 (sub3 (scale3 (sub3 n t) m) (0, 0, 0)) = (if m = 1 then abs_sum3 (sub3 n t) else 0)"
  by (cases n; cases t) (auto simp: abs_sum3_def sub3_def scale3_def)

lemma sum_list_filter_if:
  "sum_list (map f (filter P xs)) = sum_list (map (\<lambda>x. if P x then f x else (0::real)) xs)"
  by (induction xs) auto

lemma normal_loss_masked:
  assumes len: "length spn = length data"
    and bin: "\<forall>row \<in> set data. row_normal_mask row = 0 \<or> row_normal_mask row = 1"
  shows "normal_loss spn data =
           Inr (if data = [] then 0
                else sum_list (map (\<lambda>(n, row). abs_sum3 (sub3 n (row_true_normal row)))
                       (filter (\<lambda>(n, row). row_normal_mask row = 1) (zip spn data)))
                     / real (3 * length data))"
proof -
  let ?err = "map (\<lambda>(n, row). scale3 (sub3 n (row_true_normal row)) (row_normal_mask row)) (zip spn data)"
  have ne: "normal_error spn data = Inr ?err" using len by (simp add: normal_error_def)
  have l: "length ?err = length data" using len by simp
  have "map (\<lambda>e. abs_sum3 (sub3 e (0, 0, 0))) ?err
        = map (\<lambda>p. if (\<lambda>(n, row). row_normal_mask row = 1) p
                     then (\<lambda>(n, row). abs_sum3 (sub3 n (row_true_normal row))) p else 0) (zip spn data)"
  proof -
    have "(\<lambda>e. abs_sum3 (sub3 e (0, 0, 0)))
            ((\<lambda>(n, row). scale3 (sub3 n (row_true_normal row)) (row_normal_mask row)) p)
          = (if (\<lambda>(n, row). row_normal_mask row = 1) p
             then (\<lambda>(n, row). abs_sum3 (sub3 n (row_true_normal row))) p else 0)"
      if "p \<in> set (zip spn data)" for p
    proof -
      obtain n row where p: "p = (n, row)" by (cases p) auto
      have "row \<in> set data" using that unfolding p by (rule set_zip_rightD)
      then have "row_normal_mask row = 0 \<or> row_normal_mask row = 1" using bin by blast
      then show ?thesis unfolding p prod.case by (rule abs_sum3_masked)
    qed
    then show ?thesis unfolding map_map comp_def by (intro map_cong [OF refl])
  qed
  then have s: "sum_list (map (\<lambda>e. abs_sum3 (sub3 e (0, 0, 0))) ?err)
        = sum_list (map (\<lambda>(n, row). abs_sum3 (sub3 n (row_true_normal row)))
                       (filter (\<lambda>(n, row). row_normal_mask row = 1) (zip spn data)))"
    by (simp only: sum_list_filter_if)
  show ?thesis
  proof (cases "data = []")
    case True
    then show ?thesis using len by (simp add: normal_loss_def normal_error_def)
  next
    case False
    then have "length ?err > 0" using l by simp
    then have "normal_loss spn data = Inr (l1_loss_zeros ?err)"
      by (simp add: normal_loss_def ne)
    then show ?thesis using False s l by (simp add: l1_loss_zeros_def)
  qed
qed

lemma normal_loss_all_zero:
  assumes len: "length spn = length data"
    and z: "\<forall>row \<in> set data. row_normal_mask row = 0"
  shows "normal_loss spn data = Inr 0"
proof -
  have "filter (\<lambda>(n, row). row_normal_mask row = 1) (zip spn data) = []"
    using z by (auto simp: filter_empty_conv dest: set_zip_rightD)
  moreover have "\<forall>row \<in> set data. row_normal_mask row = 0 \<or> row_normal_mask row = 1" using z by blast
  ultimately show ?thesis using normal_loss_masked [OF len] by simp
qed


text \<open>
  Claim C2, as amended.  In every training iteration with a 0/1 normal-validity mask the
  normal loss is the sum of the absolute errors between rendered and ground-truth normals
  over the entries the mask selects, divided by the number of all entries of the batch
  (three per ray), not by the number of selected entries.  It is zero when the mask selects
  no entry, and zero for an empty batch; neither fails.
\<close>

theorem normal_loss_mean_over_batch:
  assumes "length spn = length data"
    and "\<forall>row \<in> set data. row_normal_mask row = 0 \<or> row_normal_mask row = 1"
  shows "normal_loss spn data =
           Inr (if data = [] then 0
                else sum_list (map (\<lambda>(n, row). abs_sum3 (sub3 n (row_true_normal row)))
                       (filter (\<lambda>(n, row). row_normal_mask row = 1) (zip spn data)))
                     / real (3 * length data))
         \<and> ((\<forall>row \<in> set data. row_normal_mask row = 0) \<longrightarrow> normal_loss spn data = Inr 0)"
  using normal_loss_masked [OF assms] normal_loss_all_zero [OF assms(1)] by blast

theorem normal_loss_mean_over_batch_witness:
  "length [(1, 1, 1), (0, 0, 0) :: vec3]
     = length [example_row (0, 0, 0) 1 1, example_row (0, 0, 0) 1 0]
   \<and> row_normal_mask (example_row (0, 0, 0) 1 1) = 1
   \<and> row_normal_mask (example_row (0, 0, 0) 1 0) = 0
   \<and> normal_loss [(1, 1, 1), (0, 0, 0)] [example_row (0, 0, 0) 1 1, example_row (0, 0, 0) 1 0]
       = Inr (1 / 2)
   \<and> normal_loss [(1, 1, 1), (5, 5, 5)] [example_row (0, 0, 0) 1 0, example_row (0, 0, 0) 1 0]
       = Inr 0"
  using normal_loss_mean_over_batch
          [of "[(1, 1, 1), (0, 0, 0)]" "[example_row (0, 0, 0) 1 1, example_row (0, 0, 0) 1 0]"]
        normal_loss_mean_over_batch
          [of "[(1, 1, 1), (5, 5, 5)]" "[example_row (0, 0, 0) 1 0, example_row (0, 0, 0) 1 0]"]
  by (simp add: example_row_def abs_sum3_def sub3_def)

text \<open>
  The claim as stated takes the mean over the selected entries only.  With two rays, the
  first selected and off by one in each component, the second not selected, the code
  returns \<open>3 / 6\<close> where the mean over the selected entries is \<open>3 / 3\<close>.
\<close>

theorem normal_loss_not_restricted_mean_counterexample:
  "normal_loss [(1, 1, 1), (0, 0, 0)] [example_row (0, 0, 0) 1 1, example_row (0, 0, 0) 1 0]
     = Inr (1 / 2)
   \<and> masked_normal_mae_spec [(1, 1, 1), (0, 0, 0)]
         [example_row (0, 0, 0) 1 1, example_row (0, 0, 0) 1 0] = 1"
  by (simp add: normal_loss_def normal_error_def l1_loss_zeros_def masked_normal_mae_spec_def
        example_row_def abs_sum3_def sub3_def scale3_def)

section \<open>The DiligentMV loader\<close>

lemma for_each_length: "for_each f xs = Inr ys \<Longrightarrow> length ys = length xs"
  by (induction xs arbitrary: ys) (auto split: sum.splits)

lemma for_each_nth:
  "for_each f xs = Inr ys \<Longrightarrow> i < length xs \<Longrightarrow> f (xs ! i) = Inr (ys ! i)"
proof (induction xs arbitrary: ys i)
  case Nil then show ?case by simp
next
  case (Cons x xs)
  then show ?case by (cases i) (auto split: sum.splits)
qed

lemma for_each_fails: "x \<in> set xs \<Longrightarrow> f x = Inl e \<Longrightarrow> \<exists>e'. for_each f xs = Inl e'"
  by (induction xs) (auto split: sum.splits)

lemma py_bind_Inr: "py_bind m f = Inr y \<Longrightarrow> \<exists>x. m = Inr x \<and> f x = Inr y"
  by (cases m) (auto simp: py_bind_def)

lemma Dataset_init_Inr:
  assumes "Dataset_init conf files rand = Inr ds"
  shows "\<exists>height width images_np camera_calib_dict kk intrinsics rtl poses intrinsics_inv.
      stack_images (map snd (discover_images conf files))
        = Inr (height, width, images_np)
    \<and> calib_mat files = Some camera_calib_dict
    \<and> calib_get camera_calib_dict ''KK'' = Inr kk
    \<and> normalize_K kk = Inr intrinsics
    \<and> for_each (\<lambda>i. read_view camera_calib_dict (i + 1))
          [0..<length (discover_images conf files)] = Inr rtl
    \<and> for_each (view_poses camera_calib_dict) [1..<21] = Inr poses
    \<and> inverse_intrinsics intrinsics = Inr intrinsics_inv
    \<and> ds = \<lparr>n_images = length (discover_images conf files),
           images_list = map fst (discover_images conf files),
           images = images_np,
           ds_H = height,
           ds_W = width,
           masks_lis = sort (mask_pngs files),
           masks = generate_random_mask rand (length (discover_images conf files)) height width,
           intrinsics_all = replicate (length (discover_images conf files)) intrinsics,
           intrinsics_all_inv = replicate (length (discover_images conf files)) intrinsics_inv,
           W2C_list = map fst poses,
           C2W_list = map snd poses,
           pose_all = map snd poses,
           object_bbox_min = (- 1.01, - 1.01, - 1.01),
           object_bbox_max = (1.01, 1.01, 1.01)\<rparr>"
  using assms unfolding Dataset_init_def Let_def
  by (auto simp: py_bind_def split: sum.splits option.splits prod.splits)


lemma Dataset_init_mask_pngs:
  "Dataset_init conf (files\<lparr>mask_pngs := pngs\<rparr>) rand
     = map_sum id (\<lambda>d. d\<lparr>masks_lis := sort pngs\<rparr>) (Dataset_init conf files rand)"
  unfolding Dataset_init_def Let_def discover_images_def
  by (simp add: py_bind_def split: sum.splits option.splits prod.splits)

lemma generate_random_mask_values:
  "\<forall>m \<in> set (generate_random_mask rand n h w). \<forall>x \<in> set m. x = 0 \<or> x = 1"
  by (auto simp: generate_random_mask_def)

lemma generate_random_mask_nth:
  "i < n \<Longrightarrow> j < h * w * 3 \<Longrightarrow>
   generate_random_mask rand n h w ! i ! j = (if rand (i * (h * w * 3) + j) > 0.5 then 1 else 0)"
  by (simp add: generate_random_mask_def)

text \<open>
  Claim C8.  In the DiligentMV loader the mask tensor is never read from the mask files:
  every element is 1.0 where its own uniform draw exceeds 0.5 and 0.0 otherwise, so every
  mask value is 0.0 or 1.0, and the sorted list \<open>masks_lis\<close> of mask files has no part in
  it: whatever files \<open>glob\<close> finds, the loader builds the same masks.
\<close>

theorem masks_random_not_loaded:
  assumes "Dataset_init conf files rand = Inr ds"
  shows "masks ds = generate_random_mask rand (n_images ds) (ds_H ds) (ds_W ds)
     \<and> (\<forall>i < n_images ds. \<forall>j < ds_H ds * ds_W ds * 3.
           masks ds ! i ! j = (if rand (i * (ds_H ds * ds_W ds * 3) + j) > 0.5 then 1 else 0))
     \<and> (\<forall>m \<in> set (masks ds). \<forall>x \<in> set m. x = 0 \<or> x = 1)
     \<and> masks_lis ds = sort (mask_pngs files)
     \<and> (\<forall>pngs. \<exists>ds'. Dataset_init conf (files\<lparr>mask_pngs := pngs\<rparr>) rand = Inr ds'
                       \<and> masks ds' = masks ds \<and> masks_lis ds' = sort pngs)"
proof -
  from Dataset_init_Inr [OF assms] obtain height width images_np intrinsics intrinsics_inv poses where
    ds: "ds = \<lparr>n_images = length (discover_images conf files),
           images_list = map fst (discover_images conf files),
           images = images_np,
           ds_H = height,
           ds_W = width,
           masks_lis = sort (mask_pngs files),
           masks = generate_random_mask rand (length (discover_images conf files)) height width,
           intrinsics_all = replicate (length (discover_images conf files)) intrinsics,
           intrinsics_all_inv = replicate (length (discover_images conf files)) intrinsics_inv,
           W2C_list = map fst poses,
           C2W_list = map snd poses,
           pose_all = map snd poses,
           object_bbox_min = (- 1.01, - 1.01, - 1.01),
           object_bbox_max = (1.01, 1.01, 1.01)\<rparr>"
    by blast
  have m: "masks ds = generate_random_mask rand (n_images ds) (ds_H ds) (ds_W ds)"
    by (simp add: ds)
  have "\<forall>i < n_images ds. \<forall>j < ds_H ds * ds_W ds * 3.
           masks ds ! i ! j = (if rand (i * (ds_H ds * ds_W ds * 3) + j) > 0.5 then 1 else 0)"
    unfolding m by (simp add: generate_random_mask_nth)
  moreover have "\<forall>m \<in> set (masks ds). \<forall>x \<in> set m. x = 0 \<or> x = 1"
    unfolding m by (rule generate_random_mask_values)
  moreover have "masks_lis ds = sort (mask_pngs files)" by (simp add: ds)
  moreover have "\<forall>pngs. \<exists>ds'. Dataset_init conf (files\<lparr>mask_pngs := pngs\<rparr>) rand = Inr ds'
                       \<and> masks ds' = masks ds \<and> masks_lis ds' = sort pngs"
    by (simp add: Dataset_init_mask_pngs assms)
  ultimately show ?thesis using m by blast
qed


lemma stack_images_length: "stack_images ims = Inr (h, w, np) \<Longrightarrow> length np = length ims"
  by (auto simp: stack_images_def split: list.splits option.splits if_splits)

lemma view_poses_Inr:
  assumes "view_poses cal v = Inr (W2C, C2W)"
  shows "\<exists>R t. cal (''Rc_'' @ str_nat v) = Some (Mat3 R) \<and> cal (''Tc_'' @ str_nat v) = Some (Col3 t)
           \<and> W2C = (R, t) \<and> inv_pose (R, t) = Inr C2W"
  using assms unfolding view_poses_def read_view_def calib_get_def build_W2C_def py_bind_def
  by (auto split: sum.splits option.splits mat_value.splits)

lemma read_view_Inr:
  "read_view cal v = Inr x \<Longrightarrow> ''Rc_'' @ str_nat v \<in> dom cal \<and> ''Tc_'' @ str_nat v \<in> dom cal"
  unfolding read_view_def calib_get_def py_bind_def
  by (auto split: sum.splits option.splits)

lemma read_view_missing:
  "cal (''Rc_'' @ str_nat v) = None \<or> cal (''Tc_'' @ str_nat v) = None \<Longrightarrow> \<exists>e. read_view cal v = Inl e"
  unfolding read_view_def calib_get_def py_bind_def
  by (auto split: sum.splits option.splits)

text \<open>
  Claim C10.  A successfully constructed dataset has exactly 20 poses in \<open>pose_all\<close> and in
  \<open>W2C_list\<close>, built from the calibration keys \<open>Rc_1 .. Rc_20\<close> and \<open>Tc_1 .. Tc_20\<close>,
  whatever the number of discovered images, while \<open>images\<close> and \<open>intrinsics_all\<close> have
  \<open>n_images\<close> entries; so poses and images correspond index by index for all views only
  when 20 images are discovered.  Construction fails when the calibration lacks
  \<open>Rc_{i+1}\<close> or \<open>Tc_{i+1}\<close> for some \<open>i < n_images\<close>.
\<close>

theorem pose_count_fixed_at_20:
  "(\<forall>ds. Dataset_init conf files rand = Inr ds \<longrightarrow>
      length (pose_all ds) = 20 \<and> length (W2C_list ds) = 20
      \<and> (\<forall>k < 20. \<exists>cal R t. calib_mat files = Some cal
            \<and> cal (''Rc_'' @ str_nat (k + 1)) = Some (Mat3 R)
            \<and> cal (''Tc_'' @ str_nat (k + 1)) = Some (Col3 t)
            \<and> W2C_list ds ! k = (R, t) \<and> inv_pose (R, t) = Inr (pose_all ds ! k))
      \<and> n_images ds = length (discover_images conf files)
      \<and> length (images ds) = n_images ds
      \<and> length (intrinsics_all ds) = n_images ds
      \<and> (length (pose_all ds) = length (images ds) \<longleftrightarrow> n_images ds = 20)
      \<and> (\<forall>i < n_images ds. \<exists>cal. calib_mat files = Some cal
            \<and> ''Rc_'' @ str_nat (i + 1) \<in> dom cal \<and> ''Tc_'' @ str_nat (i + 1) \<in> dom cal))
   \<and> ((\<exists>i < length (discover_images conf files). \<exists>cal. calib_mat files = Some cal
          \<and> (cal (''Rc_'' @ str_nat (i + 1)) = None \<or> cal (''Tc_'' @ str_nat (i + 1)) = None))
        \<longrightarrow> (\<exists>e. Dataset_init conf files rand = Inl e))"
proof (intro conjI allI impI)
  fix ds assume a: "Dataset_init conf files rand = Inr ds"
  from Dataset_init_Inr [OF a] obtain height width images_np cal intrinsics intrinsics_inv rtl poses where
    st: "stack_images (map snd (discover_images conf files)) = Inr (height, width, images_np)"
    and cal: "calib_mat files = Some cal"
    and l1: "for_each (\<lambda>i. read_view cal (i + 1)) [0..<length (discover_images conf files)] = Inr rtl"
    and l2: "for_each (view_poses cal) [1..<21] = Inr poses"
    and ds: "ds = \<lparr>n_images = length (discover_images conf files),
           images_list = map fst (discover_images conf files),
           images = images_np,
           ds_H = height,
           ds_W = width,
           masks_lis = sort (mask_pngs files),
           masks = generate_random_mask rand (length (discover_images conf files)) height width,
           intrinsics_all = replicate (length (discover_images conf files)) intrinsics,
           intrinsics_all_inv = replicate (length (discover_images conf files)) intrinsics_inv,
           W2C_list = map fst poses,
           C2W_list = map snd poses,
           pose_all = map snd poses,
           object_bbox_min = (- 1.01, - 1.01, - 1.01),
           object_bbox_max = (1.01, 1.01, 1.01)\<rparr>"
    by blast
  have lp: "length poses = 20" using for_each_length [OF l2] by simp
  show p20: "length (pose_all ds) = 20" by (simp add: ds lp)
  show "length (W2C_list ds) = 20" by (simp add: ds lp)
  show n: "n_images ds = length (discover_images conf files)" by (simp add: ds)
  show li: "length (images ds) = n_images ds" using stack_images_length [OF st] by (simp add: ds)
  show "length (intrinsics_all ds) = n_images ds" by (simp add: ds)
  show "(length (pose_all ds) = length (images ds)) = (n_images ds = 20)"
    unfolding p20 li by auto
  show "\<exists>cal R t. calib_mat files = Some cal
            \<and> cal (''Rc_'' @ str_nat (k + 1)) = Some (Mat3 R)
            \<and> cal (''Tc_'' @ str_nat (k + 1)) = Some (Col3 t)
            \<and> W2C_list ds ! k = (R, t) \<and> inv_pose (R, t) = Inr (pose_all ds ! k)"
    if k: "k < 20" for k
  proof -
    from k have "view_poses cal ([1..<21] ! k) = Inr (poses ! k)"
      by (intro for_each_nth [OF l2]) simp
    moreover have "[1..<21] ! k = k + 1" using k by (simp add: nth_upt)
    ultimately have "view_poses cal (k + 1) = Inr (fst (poses ! k), snd (poses ! k))" by simp
    from view_poses_Inr [OF this] obtain R t where
      "cal (''Rc_'' @ str_nat (k + 1)) = Some (Mat3 R)" "cal (''Tc_'' @ str_nat (k + 1)) = Some (Col3 t)"
      "fst (poses ! k) = (R, t)" "inv_pose (R, t) = Inr (snd (poses ! k))" by blast
    then have "calib_mat files = Some cal
            \<and> cal (''Rc_'' @ str_nat (k + 1)) = Some (Mat3 R)
            \<and> cal (''Tc_'' @ str_nat (k + 1)) = Some (Col3 t)
            \<and> W2C_list ds ! k = (R, t) \<and> inv_pose (R, t) = Inr (pose_all ds ! k)"
      using cal k lp by (simp add: ds)
    then show ?thesis by blast
  qed
  show "\<exists>cal. calib_mat files = Some cal
            \<and> ''Rc_'' @ str_nat (i + 1) \<in> dom cal \<and> ''Tc_'' @ str_nat (i + 1) \<in> dom cal"
    if i: "i < n_images ds" for i
  proof -
    from i have "i < length [0..<length (discover_images conf files)]" by (simp add: ds)
    from for_each_nth [OF l1 this] have "read_view cal (i + 1) = Inr (rtl ! i)"
      using i by (simp add: ds)
    from read_view_Inr [OF this] show ?thesis using cal by blast
  qed
next
  assume "\<exists>i < length (discover_images conf files). \<exists>cal. calib_mat files = Some cal
          \<and> (cal (''Rc_'' @ str_nat (i + 1)) = None \<or> cal (''Tc_'' @ str_nat (i + 1)) = None)"
  then obtain i cal where i: "i < length (discover_images conf files)"
    and cal: "calib_mat files = Some cal"
    and miss: "cal (''Rc_'' @ str_nat (i + 1)) = None \<or> cal (''Tc_'' @ str_nat (i + 1)) = None"
    by blast
  obtain e where e: "read_view cal (i + 1) = Inl e" using read_view_missing [OF miss] by blast
  have "i \<in> set [0..<length (discover_images conf files)]" using i by simp
  from for_each_fails [OF this, of "\<lambda>i. read_view cal (i + 1)", OF e]
  obtain e' where f: "for_each (\<lambda>i. read_view cal (i + 1)) [0..<length (discover_images conf files)] = Inl e'"
    by blast
  show "\<exists>e. Dataset_init conf files rand = Inl e"
  proof (cases "Dataset_init conf files rand")
    case (Inl e'')
    then show ?thesis by blast
  next
    case (Inr ds)
    from Dataset_init_Inr [OF Inr] cal f show ?thesis by auto
  qed
qed

lemma example_dataset_constructed:
  "Dataset_init example_conf example_files example_rand = Inr example_dataset"
  by code_simp

lemma example_discovered: "length (discover_images example_conf example_files) = 2"
  by code_simp

lemma example_dataset_fields:
  "n_images example_dataset = 2" "ds_H example_dataset = 1" "ds_W example_dataset = 2"
  "masks example_dataset = [[1, 0, 1, 0, 1, 0], [1, 0, 1, 0, 1, 0]]"
  "masks_lis example_dataset = [''data/mask/a.png'', ''data/mask/b.png'']"
  "length (pose_all example_dataset) = 20" "length (images example_dataset) = 2"
  by (simp_all add: example_dataset_def)

theorem masks_random_not_loaded_witness:
  "Dataset_init example_conf example_files example_rand = Inr example_dataset
   \<and> masks example_dataset = [[1, 0, 1, 0, 1, 0], [1, 0, 1, 0, 1, 0]]
   \<and> masks example_dataset = generate_random_mask example_rand 2 1 2
   \<and> masks_lis example_dataset = [''data/mask/a.png'', ''data/mask/b.png'']
   \<and> (\<exists>ds'. Dataset_init example_conf (example_files\<lparr>mask_pngs := []\<rparr>) example_rand = Inr ds'
          \<and> masks ds' = masks example_dataset \<and> masks_lis ds' = [])"
proof -
  note t = masks_random_not_loaded [OF example_dataset_constructed]
  from t have g: "masks example_dataset = generate_random_mask example_rand 2 1 2"
    unfolding example_dataset_fields(1-3) by (rule conjunct1)
  from t have "\<forall>pngs. \<exists>ds'. Dataset_init example_conf (example_files\<lparr>mask_pngs := pngs\<rparr>) example_rand = Inr ds'
                       \<and> masks ds' = masks example_dataset \<and> masks_lis ds' = sort pngs"
    by blast
  then have "\<exists>ds'. Dataset_init example_conf (example_files\<lparr>mask_pngs := []\<rparr>) example_rand = Inr ds'
                       \<and> masks ds' = masks example_dataset \<and> masks_lis ds' = sort []"
    by (rule spec)
  then have e: "\<exists>ds'. Dataset_init example_conf (example_files\<lparr>mask_pngs := []\<rparr>) example_rand = Inr ds'
          \<and> masks ds' = masks example_dataset \<and> masks_lis ds' = []"
    by simp
  show ?thesis
    using example_dataset_constructed example_dataset_fields(4,5) g e by (intro conjI)
qed

theorem pose_count_fixed_at_20_witness:
  "Dataset_init example_conf example_files example_rand = Inr example_dataset
   \<and> length (pose_all example_dataset) = 20
   \<and> length (images example_dataset) = 2
   \<and> n_images example_dataset = 2
   \<and> length (pose_all example_dataset) \<noteq> length (images example_dataset)
   \<and> (1 :: nat) < length (discover_images example_conf example_files)
   \<and> (example_calib(''Tc_2'' := None)) (''Tc_'' @ str_nat (1 + 1)) = None
   \<and> (\<exists>e. Dataset_init example_conf
             (example_files\<lparr>calib_mat := Some (example_calib(''Tc_2'' := None))\<rparr>) example_rand = Inl e)"
proof -
  note t = pose_count_fixed_at_20 [of example_conf example_files example_rand]
  from t example_dataset_constructed have a:
    "length (pose_all example_dataset) = 20" "length (images example_dataset) = n_images example_dataset"
    "(length (pose_all example_dataset) = length (images example_dataset)) = (n_images example_dataset = 20)"
    by blast+
  have s: "str_nat (1 + 1) = ''2''" by code_simp
  have k: "(example_calib(''Tc_2'' := None)) (''Tc_'' @ str_nat (1 + 1)) = None"
    unfolding s by simp
  have d: "(1 :: nat) < length (discover_images example_conf example_files)"
    by (simp add: example_discovered)
  have d': "(1 :: nat) < length (discover_images example_conf
              (example_files\<lparr>calib_mat := Some (example_calib(''Tc_2'' := None))\<rparr>))"
    using d by (simp add: discover_images_def)
  have c: "calib_mat (example_files\<lparr>calib_mat := Some (example_calib(''Tc_2'' := None))\<rparr>)
             = Some (example_calib(''Tc_2'' := None))" by simp
  from pose_count_fixed_at_20 [of example_conf
       "example_files\<lparr>calib_mat := Some (example_calib(''Tc_2'' := None))\<rparr>" example_rand]
  have e: "\<exists>e. Dataset_init example_conf
             (example_files\<lparr>calib_mat := Some (example_calib(''Tc_2'' := None))\<rparr>) example_rand = Inl e"
    using d' k c by blast
  show ?thesis
    using example_dataset_constructed a d k e example_dataset_fields(1) by simp
qed

section \<open>Pose interpolation\<close>

lemma adj_adj:
  fixes a b c d e f g h i D :: real
  assumes D_eq: "D = a * (e * i - f * h) - b * (d * i - f * g) + c * (d * h - e * g)"
  shows "(a * i - c * g) * (a * e - b * d) - (c * d - a * f) * (b * g - a * h) = D * a"
    and "(b * f - c * e) * (b * g - a * h) - (c * h - b * i) * (a * e - b * d) = D * b"
    and "(c * h - b * i) * (c * d - a * f) - (b * f - c * e) * (a * i - c * g) = D * c"
    and "(c * d - a * f) * (d * h - e * g) - (f * g - d * i) * (a * e - b * d) = D * d"
    and "(e * i - f * h) * (a * e - b * d) - (b * f - c * e) * (d * h - e * g) = D * e"
    and "(b * f - c * e) * (f * g - d * i) - (e * i - f * h) * (c * d - a * f) = D * f"
    and "(f * g - d * i) * (b * g - a * h) - (a * i - c * g) * (d * h - e * g) = D * g"
    and "(c * h - b * i) * (d * h - e * g) - (e * i - f * h) * (b * g - a * h) = D * h"
    and "(e * i - f * h) * (a * i - c * g) - (c * h - b * i) * (f * g - d * i) = D * i"
  unfolding D_eq by (simp_all add: algebra_simps)

lemma laplace:
  fixes a b c d e f g h i D :: real
  assumes D_eq: "D = a * (e * i - f * h) - b * (d * i - f * g) + c * (d * h - e * g)"
  shows "a * (e * i - f * h) + b * (f * g - d * i) + c * (d * h - e * g) = D"
    and "a * (c * h - b * i) + b * (a * i - c * g) + c * (b * g - a * h) = 0"
    and "a * (b * f - c * e) + b * (c * d - a * f) + c * (a * e - b * d) = 0"
    and "d * (e * i - f * h) + e * (f * g - d * i) + f * (d * h - e * g) = 0"
    and "d * (c * h - b * i) + e * (a * i - c * g) + f * (b * g - a * h) = D"
    and "d * (b * f - c * e) + e * (c * d - a * f) + f * (a * e - b * d) = 0"
    and "g * (e * i - f * h) + h * (f * g - d * i) + i * (d * h - e * g) = 0"
    and "g * (c * h - b * i) + h * (a * i - c * g) + i * (b * g - a * h) = 0"
    and "g * (b * f - c * e) + h * (c * d - a * f) + i * (a * e - b * d) = D"
  unfolding D_eq by (simp_all add: algebra_simps)

lemma scaled_minor_eq:
  fixes D x y z w k :: real
  assumes "D \<noteq> 0" and "x * y - z * w = D * k"
  shows "x / D * (y / D) - z / D * (w / D) = k / D"
proof -
  have "x / D * (y / D) - z / D * (w / D) = (x * y - z * w) / (D * D)"
    using assms(1) by (simp add: field_simps)
  also have "\<dots> = k / D" unfolding assms(2) using assms(1) by simp
  finally show ?thesis .
qed

lemma scaled_lin3:
  fixes D p q r x y z :: real
  assumes "D \<noteq> 0" and "p * X1 + q * Y1 + r * Z1 = k1" and "p * X2 + q * Y2 + r * Z2 = k2"
    and "p * X3 + q * Y3 + r * Z3 = k3"
  shows "p * (X1 / D * x + X2 / D * y + X3 / D * z) + q * (Y1 / D * x + Y2 / D * y + Y3 / D * z)
         + r * (Z1 / D * x + Z2 / D * y + Z3 / D * z) = (k1 * x + k2 * y + k3 * z) / D"
proof -
  have "p * (X1 / D * x + X2 / D * y + X3 / D * z) + q * (Y1 / D * x + Y2 / D * y + Y3 / D * z)
         + r * (Z1 / D * x + Z2 / D * y + Z3 / D * z)
        = ((p * X1 + q * Y1 + r * Z1) * x + (p * X2 + q * Y2 + r * Z2) * y
           + (p * X3 + q * Y3 + r * Z3) * z) / D"
    using assms(1) by (simp add: field_simps)
  then show ?thesis unfolding assms(2-4) .
qed

lemma inv3_Some:
  assumes "inv3 ((a, b, c), (d, e, f), (g, h, i)) = Some mi"
  shows "det3 ((a, b, c), (d, e, f), (g, h, i)) \<noteq> 0"
    and "mi = (((e * i - f * h) / det3 ((a, b, c), (d, e, f), (g, h, i)),
                (c * h - b * i) / det3 ((a, b, c), (d, e, f), (g, h, i)),
                (b * f - c * e) / det3 ((a, b, c), (d, e, f), (g, h, i))),
               ((f * g - d * i) / det3 ((a, b, c), (d, e, f), (g, h, i)),
                (a * i - c * g) / det3 ((a, b, c), (d, e, f), (g, h, i)),
                (c * d - a * f) / det3 ((a, b, c), (d, e, f), (g, h, i))),
               ((d * h - e * g) / det3 ((a, b, c), (d, e, f), (g, h, i)),
                (b * g - a * h) / det3 ((a, b, c), (d, e, f), (g, h, i)),
                (a * e - b * d) / det3 ((a, b, c), (d, e, f), (g, h, i))))"
  using assms unfolding inv3_def Let_def by (auto split: if_splits)

lemma inv3_involution:
  assumes "inv3 m = Some mi"
  shows "inv3 mi = Some m"
proof -
  obtain a b c d e f g h i where m: "m = ((a, b, c), (d, e, f), (g, h, i))"
    by (metis prod_cases3)
  define D where "D = a * (e * i - f * h) - b * (d * i - f * g) + c * (d * h - e * g)"
  have dm: "det3 ((a, b, c), (d, e, f), (g, h, i)) = D" by (simp add: det3_def D_def)
  have D0: "D \<noteq> 0" using inv3_Some(1) [OF assms [unfolded m]] unfolding dm .
  define a' b' c' d' e' f' g' h' i' where
    "a' = (e * i - f * h) / D" and "b' = (c * h - b * i) / D" and "c' = (b * f - c * e) / D" and
    "d' = (f * g - d * i) / D" and "e' = (a * i - c * g) / D" and "f' = (c * d - a * f) / D" and
    "g' = (d * h - e * g) / D" and "h' = (b * g - a * h) / D" and "i' = (a * e - b * d) / D"
  note prim = a'_def b'_def c'_def d'_def e'_def f'_def g'_def h'_def i'_def
  have mi: "mi = ((a', b', c'), (d', e', f'), (g', h', i'))"
    using inv3_Some(2) [OF assms [unfolded m]] unfolding dm prim .
  note aa = adj_adj [OF D_def]
  have n1: "e' * i' - f' * h' = a / D" unfolding prim by (rule scaled_minor_eq [OF D0 aa(1)])
  have n2: "c' * h' - b' * i' = b / D" unfolding prim by (rule scaled_minor_eq [OF D0 aa(2)])
  have n3: "b' * f' - c' * e' = c / D" unfolding prim by (rule scaled_minor_eq [OF D0 aa(3)])
  have n4: "f' * g' - d' * i' = d / D" unfolding prim by (rule scaled_minor_eq [OF D0 aa(4)])
  have n5: "a' * i' - c' * g' = e / D" unfolding prim by (rule scaled_minor_eq [OF D0 aa(5)])
  have n6: "c' * d' - a' * f' = f / D" unfolding prim by (rule scaled_minor_eq [OF D0 aa(6)])
  have n7: "d' * h' - e' * g' = g / D" unfolding prim by (rule scaled_minor_eq [OF D0 aa(7)])
  have n8: "b' * g' - a' * h' = h / D" unfolding prim by (rule scaled_minor_eq [OF D0 aa(8)])
  have n9: "a' * e' - b' * d' = i / D" unfolding prim by (rule scaled_minor_eq [OF D0 aa(9)])
  have n4': "d' * i' - f' * g' = - (d / D)" using n4 by linarith
  have col: "a * (e * i - f * h) + d * (c * h - b * i) + g * (b * f - c * e) = D"
    unfolding D_def by (simp add: algebra_simps)
  have "det3 ((a', b', c'), (d', e', f'), (g', h', i')) = a' * (a / D) - b' * (- (d / D)) + c' * (g / D)"
    unfolding det3_def prod.case n1 n4' n7 ..
  also have "\<dots> = (a * (e * i - f * h) + d * (c * h - b * i) + g * (b * f - c * e)) / (D * D)"
    unfolding prim using D0 by (simp add: field_simps)
  also have "\<dots> = 1 / D" unfolding col using D0 by simp
  finally have det': "det3 ((a', b', c'), (d', e', f'), (g', h', i')) = 1 / D" .
  have q: "x / D / (1 / D) = x" for x using D0 by simp
  show ?thesis
    unfolding mi m inv3_def prod.case Let_def det' n1 n2 n3 n4 n5 n6 n7 n8 n9 q
    using D0 by simp
qed

lemma inv3_mat_vec:
  assumes "inv3 m = Some mi"
  shows "mat_vec3 m (mat_vec3 mi t) = t"
proof -
  obtain a b c d e f g h i where m: "m = ((a, b, c), (d, e, f), (g, h, i))"
    by (metis prod_cases3)
  obtain x y z where t: "t = (x, y, z)" by (metis prod_cases3)
  define D where "D = a * (e * i - f * h) - b * (d * i - f * g) + c * (d * h - e * g)"
  have dm: "det3 ((a, b, c), (d, e, f), (g, h, i)) = D" by (simp add: det3_def D_def)
  have D0: "D \<noteq> 0" using inv3_Some(1) [OF assms [unfolded m]] unfolding dm .
  note mi = inv3_Some(2) [OF assms [unfolded m], unfolded dm]
  note lp = laplace [OF D_def]
  have q: "(D * x + 0 * y + 0 * z) / D = x" "(0 * x + D * y + 0 * z) / D = y"
    "(0 * x + 0 * y + D * z) / D = z" using D0 by simp_all
  have r1: "a * ((e * i - f * h) / D * x + (c * h - b * i) / D * y + (b * f - c * e) / D * z)
          + b * ((f * g - d * i) / D * x + (a * i - c * g) / D * y + (c * d - a * f) / D * z)
          + c * ((d * h - e * g) / D * x + (b * g - a * h) / D * y + (a * e - b * d) / D * z) = x"
    using scaled_lin3 [OF D0 lp(1) lp(2) lp(3), of x y z] unfolding q .
  have r2: "d * ((e * i - f * h) / D * x + (c * h - b * i) / D * y + (b * f - c * e) / D * z)
          + e * ((f * g - d * i) / D * x + (a * i - c * g) / D * y + (c * d - a * f) / D * z)
          + f * ((d * h - e * g) / D * x + (b * g - a * h) / D * y + (a * e - b * d) / D * z) = y"
    using scaled_lin3 [OF D0 lp(4) lp(5) lp(6), of x y z] unfolding q .
  have r3: "g * ((e * i - f * h) / D * x + (c * h - b * i) / D * y + (b * f - c * e) / D * z)
          + h * ((f * g - d * i) / D * x + (a * i - c * g) / D * y + (c * d - a * f) / D * z)
          + i * ((d * h - e * g) / D * x + (b * g - a * h) / D * y + (a * e - b * d) / D * z) = z"
    using scaled_lin3 [OF D0 lp(7) lp(8) lp(9), of x y z] unfolding q .
  show ?thesis
    unfolding m mi t mat_vec3_def dot3_def prod.case r1 r2 r3 ..
qed


lemma mat_vec3_neg3: "mat_vec3 m (neg3 v) = neg3 (mat_vec3 m v)"
  by (cases m rule: prod_cases3; cases v rule: prod_cases3)
     (auto simp: mat_vec3_def neg3_def dot3_def split: prod.splits)

lemma neg3_neg3: "neg3 (neg3 v) = v"
  by (cases v rule: prod_cases3) (simp add: neg3_def)

lemma inv_pose_involution:
  assumes "inv_pose p = Inr q"
  shows "inv_pose q = Inr p"
proof -
  obtain R t where p: "p = (R, t)" by (cases p) auto
  from assms obtain Ri where Ri: "inv3 R = Some Ri" and q: "q = (Ri, neg3 (mat_vec3 Ri t))"
    unfolding p inv_pose_def by (auto split: option.splits)
  have "inv3 Ri = Some R" using Ri by (rule inv3_involution)
  moreover have "neg3 (mat_vec3 R (neg3 (mat_vec3 Ri t))) = t"
    unfolding mat_vec3_neg3 neg3_neg3 using Ri by (rule inv3_mat_vec)
  ultimately show ?thesis unfolding p q inv_pose_def by simp
qed

lemma lerp_endpoints:
  "add3 (scale3 u 1) (scale3 v 0) = u" "add3 (scale3 u 0) (scale3 v 1) = v"
  by (cases u rule: prod_cases3; cases v rule: prod_cases3; simp add: add3_def scale3_def)+

lemma py_index_mem: "py_index xs i = Inr x \<Longrightarrow> x \<in> set xs"
  by (auto simp: py_index_def split: if_splits)

lemma Dataset_init_pose_invertible:
  assumes "Dataset_init conf files rand = Inr ds" and "py_index (pose_all ds) idx = Inr p"
  shows "\<exists>w. inv_pose p = Inr w \<and> w \<in> set (W2C_list ds)"
proof -
  from Dataset_init_Inr [OF assms(1)] obtain cal poses where
    l2: "for_each (view_poses cal) [1..<21] = Inr poses"
    and pa: "pose_all ds = map snd poses" and wl: "W2C_list ds = map fst poses"
    by auto
  have "p \<in> set (map snd poses)" using py_index_mem [OF assms(2)] unfolding pa .
  then obtain k where k: "k < length poses" and pk: "p = snd (poses ! k)"
    by (auto simp: in_set_conv_nth)
  have lp: "length poses = length [1..<21]" using for_each_length [OF l2] .
  have "view_poses cal ([1..<21] ! k) = Inr (poses ! k)"
    using k lp by (intro for_each_nth [OF l2]) simp
  then have "view_poses cal ([1..<21] ! k) = Inr (fst (poses ! k), snd (poses ! k))" by simp
  from view_poses_Inr [OF this] have "inv_pose (fst (poses ! k)) = Inr p"
    unfolding pk by auto
  then have "inv_pose p = Inr (fst (poses ! k))" by (rule inv_pose_involution)
  moreover have "fst (poses ! k) \<in> set (W2C_list ds)" unfolding wl using k by simp
  ultimately show ?thesis by blast
qed

lemma interpolate_pose_at:
  assumes "py_index ps idx_0 = Inr p0" and "py_index ps idx_1 = Inr p1"
    and "inv_pose p0 = Inr w0" and "inv_pose p1 = Inr w1"
    and "0 \<le> ratio" and "ratio \<le> 1"
  shows "interpolate_pose slerp ps idx_0 idx_1 ratio =
           inv_pose (slerp (fst w0) (fst w1) ratio,
                     add3 (scale3 (snd w0) (1.0 - ratio)) (scale3 (snd w1) ratio))"
  using assms by (simp add: interpolate_pose_def py_bind_def Let_def)

lemma rays_from_pose_regular:
  "size_x \<noteq> 1 \<Longrightarrow> size_y \<noteq> 1 \<Longrightarrow>
   rays_from_pose p (size_x, size_y, dirs)
     = Inr (replicate size_y (replicate size_x (snd p)),
            map (\<lambda>j. map (\<lambda>i. map_option (mat_vec3 (fst p)) (dirs ! i ! j)) [0..<size_x])
                [0..<size_y])"
  by (cases p) (simp add: rays_from_pose_def)

lemma rays_from_pose_squeezed:
  "size_x = 1 \<or> size_y = 1 \<Longrightarrow> rays_from_pose p (size_x, size_y, dirs) = Inl IndexError"
  by (cases p) (auto simp: rays_from_pose_def)

text \<open>
  Claim C9.  For every pair of view indices \<open>idx_0\<close> and \<open>idx_1\<close>, the camera pose that
  \<open>gen_rays_between\<close> interpolates is, at ratio 0, the camera-to-world pose of view
  \<open>idx_0\<close>, rotation and translation, and at ratio 1 that of view \<open>idx_1\<close>.  So the
  call returns what its ray assembly yields for that view's pose: on a grid with more than
  one column and row the origins are the view's camera centre and the directions are
  rotated by the view's rotation, and on a grid squeezed to one column or row it raises
  \<open>IndexError\<close> at either ratio.  \<open>w0\<close> and \<open>w1\<close> are the inverted poses of lines 215
  and 216; the interpolation of rotations is scipy's and is used through what it
  guarantees at its two key times.  Arithmetic is exact, so the poses agree exactly.
\<close>

theorem gen_rays_between_endpoints:
  assumes "py_index (pose_all ds) idx_0 = Inr p0" and "py_index (pose_all ds) idx_1 = Inr p1"
    and "inv_pose p0 = Inr w0" and "inv_pose p1 = Inr w1"
    and "slerp (fst w0) (fst w1) 0 = fst w0" and "slerp (fst w0) (fst w1) 1 = fst w1"
  shows "interpolate_pose slerp (pose_all ds) idx_0 idx_1 0 = Inr p0
       \<and> interpolate_pose slerp (pose_all ds) idx_0 idx_1 1 = Inr p1
       \<and> gen_rays_between slerp ds idx_0 idx_1 0 resolution_level
           = py_bind (pixel_grid_dirs ds resolution_level) (rays_from_pose p0)
       \<and> gen_rays_between slerp ds idx_0 idx_1 1 resolution_level
           = py_bind (pixel_grid_dirs ds resolution_level) (rays_from_pose p1)
       \<and> (\<forall>size_x size_y dirs.
             pixel_grid_dirs ds resolution_level = Inr (size_x, size_y, dirs)
             \<and> size_x \<noteq> 1 \<and> size_y \<noteq> 1 \<longrightarrow>
               gen_rays_between slerp ds idx_0 idx_1 0 resolution_level
                 = Inr (replicate size_y (replicate size_x (snd p0)),
                        map (\<lambda>j. map (\<lambda>i. map_option (mat_vec3 (fst p0)) (dirs ! i ! j)) [0..<size_x])
                            [0..<size_y])
             \<and> gen_rays_between slerp ds idx_0 idx_1 1 resolution_level
                 = Inr (replicate size_y (replicate size_x (snd p1)),
                        map (\<lambda>j. map (\<lambda>i. map_option (mat_vec3 (fst p1)) (dirs ! i ! j)) [0..<size_x])
                            [0..<size_y]))
       \<and> (\<forall>size_x size_y dirs.
             pixel_grid_dirs ds resolution_level = Inr (size_x, size_y, dirs)
             \<and> (size_x = 1 \<or> size_y = 1) \<longrightarrow>
               gen_rays_between slerp ds idx_0 idx_1 0 resolution_level = Inl IndexError
             \<and> gen_rays_between slerp ds idx_0 idx_1 1 resolution_level = Inl IndexError)"
proof -
  have "interpolate_pose slerp (pose_all ds) idx_0 idx_1 0 = inv_pose (fst w0, snd w0)"
    using interpolate_pose_at [OF assms(1-4), of 0 slerp] by (simp add: assms(5) lerp_endpoints)
  then have a: "interpolate_pose slerp (pose_all ds) idx_0 idx_1 0 = Inr p0"
    using inv_pose_involution [OF assms(3)] by simp
  have "interpolate_pose slerp (pose_all ds) idx_0 idx_1 1 = inv_pose (fst w1, snd w1)"
    using interpolate_pose_at [OF assms(1-4), of 1 slerp] by (simp add: assms(6) lerp_endpoints)
  then have b: "interpolate_pose slerp (pose_all ds) idx_0 idx_1 1 = Inr p1"
    using inv_pose_involution [OF assms(4)] by simp
  have g0: "gen_rays_between slerp ds idx_0 idx_1 0 resolution_level
           = py_bind (pixel_grid_dirs ds resolution_level) (rays_from_pose p0)"
    unfolding gen_rays_between_def a by (simp add: py_bind_def)
  have g1: "gen_rays_between slerp ds idx_0 idx_1 1 resolution_level
           = py_bind (pixel_grid_dirs ds resolution_level) (rays_from_pose p1)"
    unfolding gen_rays_between_def b by (simp add: py_bind_def)
  show ?thesis
    unfolding g0 g1 using a b
    by (auto simp: py_bind_def rays_from_pose_regular rays_from_pose_squeezed)
qed

lemma linspace_two: "linspace 0 1 2 = Inr [0, 1]"
  by (simp add: linspace_def numeral_2_eq_2)

lemma grid9:
  "pixel_grid_dirs example_dataset9 1
     = Inr (2, 2, [[Some (0, 0, 1), Some (0, 1 / sqrt 2, 1 / sqrt 2)],
                   [Some (1 / sqrt 2, 0, 1 / sqrt 2), Some (1 / sqrt 3, 1 / sqrt 3, 1 / sqrt 3)]])"
  by (simp add: pixel_grid_dirs_def example_dataset9_def py_floordiv_def py_bind_def py_index_def
        linspace_two normalize3_def mat_vec3_def dot3_def scale3_def Let_def)

lemma grid_flat:
  "\<exists>dirs. pixel_grid_dirs example_dataset 1 = Inr (2, 1, dirs)"
  by (simp add: pixel_grid_dirs_def example_dataset_def py_floordiv_def py_bind_def py_index_def
        linspace_two linspace_def Let_def)


text \<open>
  A dataset with a 2 x 2 image whose first view is not rotated and whose other views are
  turned by a quarter about the z axis; between the two the axis-angle interpolation
  passes through the eighth turn.
\<close>

lemma example_dataset9_constructed:
  "Dataset_init example_conf example_files9 example_rand = Inr example_dataset9"
  by code_simp

lemma rodrigues_0: "rodrigues u 0 = ((1, 0, 0), (0, 1, 0), (0, 0, 1))"
  by (cases u rule: prod_cases3) (simp add: rodrigues_def)

lemma mat_mul3_identity: "mat_mul3 R ((1, 0, 0), (0, 1, 0), (0, 0, 1)) = R"
  by (cases R rule: prod_cases3; cases "fst R" rule: prod_cases3; cases "fst (snd R)" rule: prod_cases3;
      cases "snd (snd R)" rule: prod_cases3)
     (simp add: mat_mul3_def transpose3_def mat_vec3_def dot3_def)

text \<open>At ratio 0 the axis-angle interpolation returns its first rotation, whatever the two are.\<close>

lemma slerp_axis_angle_at_0: "slerp_axis_angle R0 R1 0 = R0"
  by (simp add: slerp_axis_angle_def Let_def rodrigues_0 mat_mul3_identity split: prod.splits)

lemma slerp_quarter_turn:
  "slerp_axis_angle ((1, 0, 0), (0, 1, 0), (0, 0, 1)) ((0, - 1, 0), (1, 0, 0), (0, 0, 1)) 1
     = ((0, - 1, 0), (1, 0, 0), (0, 0, 1))"
  "slerp_axis_angle ((1, 0, 0), (0, 1, 0), (0, 0, 1)) ((0, - 1, 0), (1, 0, 0), (0, 0, 1)) (1 / 2)
     = ((sqrt 2 / 2, - (sqrt 2 / 2), 0), (sqrt 2 / 2, sqrt 2 / 2, 0), (0, 0, 1))"
  by (simp_all add: slerp_axis_angle_def Let_def rodrigues_def mat_mul3_def transpose3_def
        mat_vec3_def dot3_def scale3_def cos_45 sin_45)

lemma slerp_same_rotation:
  "slerp_axis_angle ((0, - 1, 0), (1, 0, 0), (0, 0, 1)) ((0, - 1, 0), (1, 0, 0), (0, 0, 1)) 1
     = ((0, - 1, 0), (1, 0, 0), (0, 0, 1))"
  by (simp add: slerp_axis_angle_def Let_def mat_mul3_def transpose3_def mat_vec3_def dot3_def)

theorem gen_rays_between_endpoints_witness:
  "Dataset_init example_conf example_files9 example_rand = Inr example_dataset9
   \<and> py_index (pose_all example_dataset9) 0 = Inr (((1, 0, 0), (0, 1, 0), (0, 0, 1)), (- 1, 0, - 1))
   \<and> py_index (pose_all example_dataset9) 3 = Inr (((0, 1, 0), (- 1, 0, 0), (0, 0, 1)), (0, 4, - 1))
   \<and> inv_pose (((1, 0, 0), (0, 1, 0), (0, 0, 1)), (- 1, 0, - 1))
       = Inr (((1, 0, 0), (0, 1, 0), (0, 0, 1)), (1, 0, 1))
   \<and> inv_pose (((0, 1, 0), (- 1, 0, 0), (0, 0, 1)), (0, 4, - 1))
       = Inr (((0, - 1, 0), (1, 0, 0), (0, 0, 1)), (4, 0, 1))
   \<and> slerp_axis_angle ((1, 0, 0), (0, 1, 0), (0, 0, 1)) ((0, - 1, 0), (1, 0, 0), (0, 0, 1)) 0
       = ((1, 0, 0), (0, 1, 0), (0, 0, 1))
   \<and> slerp_axis_angle ((1, 0, 0), (0, 1, 0), (0, 0, 1)) ((0, - 1, 0), (1, 0, 0), (0, 0, 1)) 1
       = ((0, - 1, 0), (1, 0, 0), (0, 0, 1))
   \<and> slerp_axis_angle ((1, 0, 0), (0, 1, 0), (0, 0, 1)) ((0, - 1, 0), (1, 0, 0), (0, 0, 1)) (1 / 2)
       = ((sqrt 2 / 2, - (sqrt 2 / 2), 0), (sqrt 2 / 2, sqrt 2 / 2, 0), (0, 0, 1))
   \<and> interpolate_pose slerp_axis_angle (pose_all example_dataset9) 0 3 0
       = Inr (((1, 0, 0), (0, 1, 0), (0, 0, 1)), (- 1, 0, - 1))
   \<and> interpolate_pose slerp_axis_angle (pose_all example_dataset9) 0 3 1
       = Inr (((0, 1, 0), (- 1, 0, 0), (0, 0, 1)), (0, 4, - 1))
   \<and> pixel_grid_dirs example_dataset9 1
       = Inr (2, 2, [[Some (0, 0, 1), Some (0, 1 / sqrt 2, 1 / sqrt 2)],
                     [Some (1 / sqrt 2, 0, 1 / sqrt 2), Some (1 / sqrt 3, 1 / sqrt 3, 1 / sqrt 3)]])
   \<and> gen_rays_between slerp_axis_angle example_dataset9 0 3 0 1
       = Inr ([[(- 1, 0, - 1), (- 1, 0, - 1)], [(- 1, 0, - 1), (- 1, 0, - 1)]],
              [[Some (0, 0, 1), Some (1 / sqrt 2, 0, 1 / sqrt 2)],
               [Some (0, 1 / sqrt 2, 1 / sqrt 2), Some (1 / sqrt 3, 1 / sqrt 3, 1 / sqrt 3)]])
   \<and> gen_rays_between slerp_axis_angle example_dataset9 0 3 1 1
       = Inr ([[(0, 4, - 1), (0, 4, - 1)], [(0, 4, - 1), (0, 4, - 1)]],
              [[Some (0, 0, 1), Some (0, - (1 / sqrt 2), 1 / sqrt 2)],
               [Some (1 / sqrt 2, 0, 1 / sqrt 2), Some (1 / sqrt 3, - (1 / sqrt 3), 1 / sqrt 3)]])
   \<and> (\<exists>dirs. pixel_grid_dirs example_dataset 1 = Inr (2, 1, dirs))
   \<and> gen_rays_between slerp_axis_angle example_dataset 0 3 0 1 = Inl IndexError
   \<and> gen_rays_between slerp_axis_angle example_dataset 0 3 1 1 = Inl IndexError"
proof -
  let ?I = "((1, 0, 0), (0, 1, 0), (0, 0, 1)) :: mat3"
  let ?Rz = "((0, - 1, 0), (1, 0, 0), (0, 0, 1)) :: mat3"
  let ?Rzt = "((0, 1, 0), (- 1, 0, 0), (0, 0, 1)) :: mat3"
  have i0: "py_index (pose_all example_dataset9) 0 = Inr (?I, (- 1, 0, - 1))"
    by (simp add: example_dataset9_def py_index_def)
  have i3: "py_index (pose_all example_dataset9) 3 = Inr (?Rzt, (0, 4, - 1))"
    by (simp add: example_dataset9_def py_index_def)
  have w0: "inv_pose (?I, (- 1, 0, - 1)) = Inr (?I, (1, 0, 1))"
    by (simp add: inv_pose_def inv3_def det3_def mat_vec3_def dot3_def neg3_def)
  have w3: "inv_pose (?Rzt, (0, 4, - 1)) = Inr (?Rz, (4, 0, 1))"
    by (simp add: inv_pose_def inv3_def det3_def mat_vec3_def dot3_def neg3_def)
  have s0: "slerp_axis_angle (fst (?I, (1, 0, 1) :: vec3)) (fst (?Rz, (4, 0, 1) :: vec3)) 0
              = fst (?I, (1, 0, 1) :: vec3)"
    by (simp add: slerp_axis_angle_at_0)
  have s1: "slerp_axis_angle (fst (?I, (1, 0, 1) :: vec3)) (fst (?Rz, (4, 0, 1) :: vec3)) 1
              = fst (?Rz, (4, 0, 1) :: vec3)"
    by (simp add: slerp_quarter_turn(1))
  note t9 = gen_rays_between_endpoints
    [where slerp = slerp_axis_angle and resolution_level = 1, OF i0 i3 w0 w3 s0 s1]
  have p9: "interpolate_pose slerp_axis_angle (pose_all example_dataset9) 0 3 0 = Inr (?I, (- 1, 0, - 1))"
    "interpolate_pose slerp_axis_angle (pose_all example_dataset9) 0 3 1 = Inr (?Rzt, (0, 4, - 1))"
    using t9 by blast+
  have g90: "gen_rays_between slerp_axis_angle example_dataset9 0 3 0 1
       = Inr ([[(- 1, 0, - 1), (- 1, 0, - 1)], [(- 1, 0, - 1), (- 1, 0, - 1)]],
              [[Some (0, 0, 1), Some (1 / sqrt 2, 0, 1 / sqrt 2)],
               [Some (0, 1 / sqrt 2, 1 / sqrt 2), Some (1 / sqrt 3, 1 / sqrt 3, 1 / sqrt 3)]])"
  proof -
    from t9 have "gen_rays_between slerp_axis_angle example_dataset9 0 3 0 1
        = py_bind (pixel_grid_dirs example_dataset9 1) (rays_from_pose (?I, (- 1, 0, - 1)))"
      by blast
    then show ?thesis
      by (simp add: grid9 py_bind_def rays_from_pose_def numeral_2_eq_2 mat_vec3_def dot3_def)
  qed
  have g91: "gen_rays_between slerp_axis_angle example_dataset9 0 3 1 1
       = Inr ([[(0, 4, - 1), (0, 4, - 1)], [(0, 4, - 1), (0, 4, - 1)]],
              [[Some (0, 0, 1), Some (0, - (1 / sqrt 2), 1 / sqrt 2)],
               [Some (1 / sqrt 2, 0, 1 / sqrt 2), Some (1 / sqrt 3, - (1 / sqrt 3), 1 / sqrt 3)]])"
  proof -
    from t9 have "gen_rays_between slerp_axis_angle example_dataset9 0 3 1 1
        = py_bind (pixel_grid_dirs example_dataset9 1) (rays_from_pose (?Rzt, (0, 4, - 1)))"
      by blast
    then show ?thesis
      by (simp add: grid9 py_bind_def rays_from_pose_def numeral_2_eq_2 mat_vec3_def dot3_def)
  qed
  have j0: "py_index (pose_all example_dataset) 0 = Inr (?Rzt, (0, 1, - 1))"
    by (simp add: example_dataset_def py_index_def)
  have j3: "py_index (pose_all example_dataset) 3 = Inr (?Rzt, (0, 4, - 1))"
    by (simp add: example_dataset_def py_index_def)
  have v0: "inv_pose (?Rzt, (0, 1, - 1)) = Inr (?Rz, (1, 0, 1))"
    by (simp add: inv_pose_def inv3_def det3_def mat_vec3_def dot3_def neg3_def)
  have r0: "slerp_axis_angle (fst (?Rz, (1, 0, 1) :: vec3)) (fst (?Rz, (4, 0, 1) :: vec3)) 0
              = fst (?Rz, (1, 0, 1) :: vec3)"
    by (simp add: slerp_axis_angle_at_0)
  have r1: "slerp_axis_angle (fst (?Rz, (1, 0, 1) :: vec3)) (fst (?Rz, (4, 0, 1) :: vec3)) 1
              = fst (?Rz, (4, 0, 1) :: vec3)"
    by (simp add: slerp_same_rotation)
  note t1 = gen_rays_between_endpoints
    [where slerp = slerp_axis_angle and resolution_level = 1, OF j0 j3 v0 w3 r0 r1]
  from grid_flat obtain dirs where gf: "pixel_grid_dirs example_dataset 1 = Inr (2, 1, dirs)"
    by blast
  have e: "gen_rays_between slerp_axis_angle example_dataset 0 3 0 1 = Inl IndexError"
    "gen_rays_between slerp_axis_angle example_dataset 0 3 1 1 = Inl IndexError"
    using t1 gf by blast+
  show ?thesis
    using example_dataset9_constructed i0 i3 w0 w3 slerp_axis_angle_at_0 slerp_quarter_turn
      p9 grid9 g90 g91 grid_flat e
    by (intro conjI)
qed

section \<open>Early stopping\<close>

lemma update_learning_rate_ok:
  assumes "0 \<le> iter_step r" and "iter_step r < end_iter r"
  shows "\<exists>opt. update_learning_rate r = Inr (r\<lparr>optimizer := opt\<rparr>)"
proof -
  have "\<exists>f. learning_factor r = Inr f"
    using assms by (auto simp: learning_factor_def Let_def)
  then show ?thesis by (auto simp: update_learning_rate_def)
qed

lemma py_mod_is_zero_dvd: "b \<noteq> 0 \<Longrightarrow> py_mod_is_zero a b = Inr (b dvd a)"
  by (simp add: py_mod_is_zero_def mod_eq_0_iff_dvd)

text \<open>An iteration whose number is no multiple of \<open>val_freq\<close>.\<close>

lemma iteration_without_check:
  assumes ok: "train_conf_ok conf" and st: "loop_static e w s"
    and lt: "iter_step (run s) + 1 < e"
    and nc: "\<not> val_freq conf dvd (iter_step (run s) + 1)"
  shows "\<exists>s'. train_iteration conf loss psnr s = Inr (s', False) \<and> loop_static e w s'
           \<and> iter_step (run s') = iter_step (run s) + 1
           \<and> best_val_metric s' = best_val_metric s \<and> best_val_iter s' = best_val_iter s
           \<and> patience_counter s' = patience_counter s"
proof -
  let ?r = "(run s)\<lparr>iter_step := iter_step (run s) + 1\<rparr>"
  have "0 \<le> iter_step ?r" "iter_step ?r < end_iter ?r"
    using st lt by (simp_all add: loop_static_def)
  from update_learning_rate_ok [OF this] obtain opt where
    u: "update_learning_rate ?r = Inr (?r\<lparr>optimizer := opt\<rparr>)" by blast
  have f: "report_freq conf \<noteq> 0" "save_freq conf \<noteq> 0" "val_freq conf \<noteq> 0"
    "val_mesh_freq conf \<noteq> 0" "image_perm_len conf \<noteq> 0"
    using ok by (simp_all add: train_conf_ok_def)
  have "train_iteration conf loss psnr s = Inr (s\<lparr>run := ?r\<lparr>optimizer := opt\<rparr>\<rparr>, False)"
    unfolding train_iteration_def Let_def
    using f nc u by (simp add: py_bind_def py_mod_is_zero_dvd)
  moreover have "loop_static e w (s\<lparr>run := ?r\<lparr>optimizer := opt\<rparr>\<rparr>)"
    using st by (simp add: loop_static_def)
  ultimately show ?thesis by simp
qed

text \<open>A validation check that improves on the best loss, or is the first one.\<close>

lemma iteration_improving:
  assumes ok: "train_conf_ok conf" and st: "loop_static e w s"
    and lt: "iter_step (run s) + 1 < e"
    and ck: "val_freq conf dvd (iter_step (run s) + 1)"
    and im: "best_val_metric s = None \<or> loss (iter_step (run s) + 1) < the (best_val_metric s)"
  shows "\<exists>s'. train_iteration conf loss psnr s = Inr (s', False) \<and> loop_static e w s'
           \<and> iter_step (run s') = iter_step (run s) + 1
           \<and> best_val_metric s' = Some (loss (iter_step (run s) + 1))
           \<and> best_val_iter s' = iter_step (run s) + 1
           \<and> patience_counter s' = Some 0"
proof -
  let ?n = "iter_step (run s) + 1"
  let ?r = "(run s)\<lparr>iter_step := ?n\<rparr>"
  have "0 \<le> iter_step ?r" "iter_step ?r < end_iter ?r"
    using st lt by (simp_all add: loop_static_def)
  from update_learning_rate_ok [OF this] obtain opt where
    u: "update_learning_rate ?r = Inr (?r\<lparr>optimizer := opt\<rparr>)" by blast
  have f: "report_freq conf \<noteq> 0" "save_freq conf \<noteq> 0" "val_freq conf \<noteq> 0"
    "val_mesh_freq conf \<noteq> 0" "image_perm_len conf \<noteq> 0"
    using ok by (simp_all add: train_conf_ok_def)
  let ?s' = "s\<lparr>run := ?r\<lparr>optimizer := opt\<rparr>,
                losses_val := losses_val s @ [loss ?n], psnrs_val := psnrs_val s @ [psnr ?n],
                best_val_metric := Some (loss ?n), best_val_iter := ?n,
                patience_counter := Some 0\<rparr>"
  have c: "early_stopping_check conf (loss ?n) (psnr ?n) (s\<lparr>run := ?r\<rparr>)
        = Inr (s\<lparr>run := ?r,
                losses_val := losses_val s @ [loss ?n], psnrs_val := psnrs_val s @ [psnr ?n],
                best_val_metric := Some (loss ?n), best_val_iter := ?n,
                patience_counter := Some 0\<rparr>, False)"
    using im by (auto simp: early_stopping_check_def Let_def)
  have "train_iteration conf loss psnr s = Inr (?s', False)"
    unfolding train_iteration_def Let_def
    using f ck u c by (simp add: py_bind_def py_mod_is_zero_dvd)
  moreover have "loop_static e w ?s'" using st by (simp add: loop_static_def)
  ultimately show ?thesis by simp
qed

text \<open>A validation check that does not improve, with patience left.\<close>

lemma iteration_waiting:
  assumes ok: "train_conf_ok conf" and st: "loop_static e w s"
    and lt: "iter_step (run s) + 1 < e"
    and ck: "val_freq conf dvd (iter_step (run s) + 1)"
    and b: "best_val_metric s = Some best" and ni: "\<not> loss (iter_step (run s) + 1) < best"
    and pc: "patience_counter s = Some c" and pl: "c + 1 < patience conf"
  shows "\<exists>s'. train_iteration conf loss psnr s = Inr (s', False) \<and> loop_static e w s'
           \<and> iter_step (run s') = iter_step (run s) + 1
           \<and> best_val_metric s' = Some best \<and> best_val_iter s' = best_val_iter s
           \<and> patience_counter s' = Some (c + 1)"
proof -
  let ?n = "iter_step (run s) + 1"
  let ?r = "(run s)\<lparr>iter_step := ?n\<rparr>"
  have "0 \<le> iter_step ?r" "iter_step ?r < end_iter ?r"
    using st lt by (simp_all add: loop_static_def)
  from update_learning_rate_ok [OF this] obtain opt where
    u: "update_learning_rate ?r = Inr (?r\<lparr>optimizer := opt\<rparr>)" by blast
  have f: "report_freq conf \<noteq> 0" "save_freq conf \<noteq> 0" "val_freq conf \<noteq> 0"
    "val_mesh_freq conf \<noteq> 0" "image_perm_len conf \<noteq> 0"
    using ok by (simp_all add: train_conf_ok_def)
  let ?s' = "s\<lparr>run := ?r\<lparr>optimizer := opt\<rparr>,
                losses_val := losses_val s @ [loss ?n], psnrs_val := psnrs_val s @ [psnr ?n],
                patience_counter := Some (c + 1)\<rparr>"
  have c: "early_stopping_check conf (loss ?n) (psnr ?n) (s\<lparr>run := ?r\<rparr>)
        = Inr (s\<lparr>run := ?r,
                losses_val := losses_val s @ [loss ?n], psnrs_val := psnrs_val s @ [psnr ?n],
                patience_counter := Some (c + 1)\<rparr>, False)"
    using b ni pc pl by (simp add: early_stopping_check_def Let_def)
  have "train_iteration conf loss psnr s = Inr (?s', False)"
    unfolding train_iteration_def Let_def
    using f ck u c by (simp add: py_bind_def py_mod_is_zero_dvd)
  moreover have "loop_static e w ?s'" using st by (simp add: loop_static_def)
  ultimately show ?thesis using b by simp
qed

text \<open>A validation check that does not improve and uses up the patience.\<close>

lemma iteration_stopping:
  assumes ok: "train_conf_ok conf"
    and ck: "val_freq conf dvd (iter_step (run s) + 1)"
    and b: "best_val_metric s = Some best" and ni: "\<not> loss (iter_step (run s) + 1) < best"
    and pc: "patience_counter s = Some c" and ge: "patience conf \<le> c + 1"
  shows "\<exists>s'. train_iteration conf loss psnr s = Inr (s', True) \<and> early_stop s'
           \<and> iter_step (run s') = iter_step (run s) + 1
           \<and> best_val_metric s' = Some best \<and> best_val_iter s' = best_val_iter s
           \<and> patience_counter s' = Some (c + 1)"
proof -
  let ?n = "iter_step (run s) + 1"
  let ?r = "(run s)\<lparr>iter_step := ?n\<rparr>"
  have f: "report_freq conf \<noteq> 0" "save_freq conf \<noteq> 0" "val_freq conf \<noteq> 0"
    "val_mesh_freq conf \<noteq> 0" "image_perm_len conf \<noteq> 0"
    using ok by (simp_all add: train_conf_ok_def)
  let ?s' = "s\<lparr>run := ?r,
                losses_val := losses_val s @ [loss ?n], psnrs_val := psnrs_val s @ [psnr ?n],
                patience_counter := Some (c + 1), early_stop := True\<rparr>"
  have c: "early_stopping_check conf (loss ?n) (psnr ?n) (s\<lparr>run := ?r\<rparr>) = Inr (?s', True)"
    using b ni pc ge by (simp add: early_stopping_check_def Let_def)
  have "train_iteration conf loss psnr s = Inr (?s', True)"
    unfolding train_iteration_def Let_def
    using f ck c by (simp add: py_bind_def py_mod_is_zero_dvd)
  then show ?thesis using b by simp
qed

lemma train_loop_steps:
  assumes step: "\<And>n s. a \<le> n \<Longrightarrow> n < b \<Longrightarrow> I n s \<Longrightarrow>
            \<not> early_stop s \<and> (\<exists>s'. train_iteration conf loss psnr s = Inr (s', False) \<and> I (n + 1) s')"
  shows "a \<le> n \<Longrightarrow> n + int k = b \<Longrightarrow> I n s \<Longrightarrow>
         \<exists>s'. I b s' \<and> (\<forall>rest. train_loop (k + rest) conf loss psnr s = train_loop rest conf loss psnr s')"
proof (induction k arbitrary: n s)
  case 0
  then show ?case by auto
next
  case (Suc k)
  have nb: "n < b" using Suc.prems(2) by simp
  from step [OF Suc.prems(1) nb Suc.prems(3)] obtain s1 where
    ne: "\<not> early_stop s" and it: "train_iteration conf loss psnr s = Inr (s1, False)"
    and i1: "I (n + 1) s1" by blast
  have "a \<le> n + 1" "n + 1 + int k = b" using Suc.prems(1,2) by simp_all
  from Suc.IH [OF this i1] obtain s' where
    ib: "I b s'" and r: "\<forall>rest. train_loop (k + rest) conf loss psnr s1 = train_loop rest conf loss psnr s'"
    by blast
  have "train_loop (Suc k + rest) conf loss psnr s = train_loop rest conf loss psnr s'" for rest
    using ne it r by simp
  then show ?case using ib by blast
qed

lemma multiple_in_window:
  fixes v c q :: int
  assumes "0 < v" and "c * v < v * q" and "v * q \<le> (c + 1) * v"
  shows "q = c + 1"
proof -
  have "c * v < q * v" using assms(2) by (simp add: mult.commute)
  then have "c < q" using assms(1) by (simp add: mult_less_cancel_right_pos)
  moreover have "q * v \<le> (c + 1) * v" using assms(3) by (simp add: mult.commute)
  then have "q \<le> c + 1" using assms(1) by (simp add: mult_le_cancel_right)
  ultimately show ?thesis by simp
qed

lemma next_check_position:
  fixes v c m n :: int
  assumes v: "0 < v" and dm: "v dvd m" and dn: "v dvd (n + 1)"
    and lo: "m + c * v \<le> n" and hi: "n < m + (c + 1) * v"
  shows "n + 1 = m + (c + 1) * v"
proof -
  have "v dvd (n + 1 - m)" using dn dm by (rule dvd_diff)
  then obtain q where q: "n + 1 - m = v * q" by (auto simp: dvd_def)
  have "c * v < v * q" using lo q by linarith
  moreover have "v * q \<le> (c + 1) * v" using hi q by linarith
  ultimately have "q = c + 1" using v by (intro multiple_in_window)
  then show ?thesis using q by (simp add: mult.commute)
qed

lemma no_check_position:
  fixes v c m n :: int
  assumes dm: "v dvd m" and dn: "\<not> v dvd (n + 1)" and hi: "n < m + (c + 1) * v"
  shows "n + 1 < m + (c + 1) * v"
proof -
  have "v dvd (m + (c + 1) * v)" using dm by simp
  then have "n + 1 \<noteq> m + (c + 1) * v" using dn by metis
  then show ?thesis using hi by linarith
qed


text \<open>
  Claim C4.  Take a run of the training loop (frequencies that \<open>%\<close> can divide by, at least
  one image, a patience of at least 1) in which the tracked loss strictly improves at every
  validation check up to the check at iteration \<open>m\<close> and none of the \<open>patience\<close> further
  checks, all within \<open>end_iter\<close>, improves on it.  The loop terminates exactly \<open>patience\<close>
  validation checks after the last improvement, at iteration \<open>m + patience * |val_freq|\<close>, and
  the recorded best iteration is \<open>m\<close>, the iteration of the last strictly improving check.
  The quantity tracked is the loss: the recorded best value is the loss at \<open>m\<close>, and the
  PSNR sequence is arbitrary.
\<close>

theorem early_stopping_after_patience:
  assumes ok: "train_conf_ok conf" and p1: "1 \<le> patience conf"
    and i0: "0 \<le> iter_step r"
    and sm: "iter_step r < m" and dm: "val_freq conf dvd m"
    and fit: "m + patience conf * \<bar>val_freq conf\<bar> \<le> end_iter r"
    and improving: "\<forall>c c'. iter_step r < c \<and> c < c' \<and> c' \<le> m \<and> val_freq conf dvd c
                      \<and> val_freq conf dvd c' \<longrightarrow> loss c' < loss c"
    and plateau: "\<forall>c. m < c \<and> c \<le> m + patience conf * \<bar>val_freq conf\<bar> \<and> val_freq conf dvd c
                      \<longrightarrow> \<not> loss c < loss m"
  shows "\<exists>s'. train conf loss psnr r = Inr s' \<and> early_stop s'
           \<and> iter_step (run s') = m + patience conf * \<bar>val_freq conf\<bar>
           \<and> best_val_iter s' = m \<and> best_val_metric s' = Some (loss m)
           \<and> patience_counter s' = Some (patience conf)"
proof -
  define v where "v = \<bar>val_freq conf\<bar>"
  define p where "p = patience conf"
  define s0 where "s0 = iter_step r"
  define e where "e = end_iter r"
  define w where "w = warm_up_end r"
  have v0: "0 < v" using ok by (simp add: train_conf_ok_def v_def)
  have dm': "v dvd m" using dm by (simp add: v_def)
  have pv: "1 \<le> p * v" using p1 v0 unfolding p_def
    by (metis mult_mono' less_le_not_le mult.left_neutral int_one_le_iff_zero_less zero_le_one)
  have me: "m + p * v \<le> e" using fit by (simp add: p_def v_def e_def)
  have "iter_step r < end_iter r" using sm me pv by (simp add: e_def)
  from update_learning_rate_ok [OF i0 this] obtain opt where
    u: "update_learning_rate r = Inr (r\<lparr>optimizer := opt\<rparr>)" by blast
  define S0 where "S0 = \<lparr>run = r\<lparr>optimizer := opt\<rparr>, best_val_metric = None, best_val_iter = 0,
      patience_counter = None, early_stop = False, losses_val = [], psnrs_val = []\<rparr>"
  have tr: "train conf loss psnr r = train_loop (nat (e - s0)) conf loss psnr S0"
    by (simp add: train_def u py_bind_def Let_def S0_def e_def s0_def)

  define I1 where "I1 = (\<lambda>n s. loop_static e w s \<and> iter_step (run s) = n
      \<and> ((best_val_metric s = None \<and> (\<forall>c. s0 < c \<and> c \<le> n \<longrightarrow> \<not> v dvd c))
         \<or> (\<exists>c. s0 < c \<and> c \<le> n \<and> n < c + v \<and> v dvd c \<and> best_val_metric s = Some (loss c)
                \<and> best_val_iter s = c \<and> patience_counter s = Some 0)))"
  define I2 where "I2 = (\<lambda>n s. loop_static e w s \<and> iter_step (run s) = n
      \<and> best_val_metric s = Some (loss m) \<and> best_val_iter s = m
      \<and> (\<exists>c. patience_counter s = Some c \<and> 0 \<le> c \<and> m + c * v \<le> n \<and> n < m + (c + 1) * v))"

  have init: "I1 s0 S0"
    using i0 by (auto simp: I1_def S0_def loop_static_def e_def w_def s0_def)

  have step1: "\<not> early_stop s \<and> (\<exists>s'. train_iteration conf loss psnr s = Inr (s', False) \<and> I1 (n + 1) s')"
    if "s0 \<le> n" "n < m" "I1 n s" for n s
  proof -
    from that(3) have st: "loop_static e w s" and it: "iter_step (run s) = n"
      and br: "(best_val_metric s = None \<and> (\<forall>c. s0 < c \<and> c \<le> n \<longrightarrow> \<not> v dvd c))
         \<or> (\<exists>c. s0 < c \<and> c \<le> n \<and> n < c + v \<and> v dvd c \<and> best_val_metric s = Some (loss c)
                \<and> best_val_iter s = c \<and> patience_counter s = Some 0)"
      by (simp_all add: I1_def)
    have ne: "\<not> early_stop s" using st by (simp add: loop_static_def)
    have lte: "iter_step (run s) + 1 < e" using that(2) it me pv by simp
    show ?thesis
    proof (cases "v dvd (n + 1)")
      case True
      have "best_val_metric s = None \<or> loss (n + 1) < the (best_val_metric s)"
      proof (rule disjE [OF br])
        assume "best_val_metric s = None \<and> (\<forall>c. s0 < c \<and> c \<le> n \<longrightarrow> \<not> v dvd c)"
        then show ?thesis by simp
      next
        assume "\<exists>c. s0 < c \<and> c \<le> n \<and> n < c + v \<and> v dvd c \<and> best_val_metric s = Some (loss c)
                \<and> best_val_iter s = c \<and> patience_counter s = Some 0"
        then obtain c where c: "s0 < c" "c \<le> n" "v dvd c" "best_val_metric s = Some (loss c)" by blast
        have "iter_step r < c \<and> c < n + 1 \<and> n + 1 \<le> m \<and> val_freq conf dvd c \<and> val_freq conf dvd (n + 1)"
          using c that(2) True by (simp add: s0_def v_def)
        then have "loss (n + 1) < loss c" using improving by blast
        then show ?thesis using c(4) by simp
      qed
      then have im: "best_val_metric s = None \<or> loss (iter_step (run s) + 1) < the (best_val_metric s)"
        by (simp add: it)
      have ck: "val_freq conf dvd (iter_step (run s) + 1)" using True by (simp add: it v_def)
      from iteration_improving [where loss = loss and psnr = psnr, OF ok st lte ck im] obtain s' where
        s': "train_iteration conf loss psnr s = Inr (s', False)" "loop_static e w s'"
          "iter_step (run s') = n + 1" "best_val_metric s' = Some (loss (n + 1))"
          "best_val_iter s' = n + 1" "patience_counter s' = Some 0"
        unfolding it by blast
      have "I1 (n + 1) s'"
        unfolding I1_def using s'(2-6) True that(1) v0 by auto
      then show ?thesis using ne s'(1) by blast
    next
      case False
      have nc: "\<not> val_freq conf dvd (iter_step (run s) + 1)" using False by (simp add: it v_def)
      from iteration_without_check [where loss = loss and psnr = psnr, OF ok st lte nc] obtain s' where
        s': "train_iteration conf loss psnr s = Inr (s', False)" "loop_static e w s'"
          "iter_step (run s') = n + 1" "best_val_metric s' = best_val_metric s"
          "best_val_iter s' = best_val_iter s" "patience_counter s' = patience_counter s"
        unfolding it by blast
      have "(best_val_metric s' = None \<and> (\<forall>c. s0 < c \<and> c \<le> n + 1 \<longrightarrow> \<not> v dvd c))
         \<or> (\<exists>c. s0 < c \<and> c \<le> n + 1 \<and> n + 1 < c + v \<and> v dvd c \<and> best_val_metric s' = Some (loss c)
                \<and> best_val_iter s' = c \<and> patience_counter s' = Some 0)"
      proof (rule disjE [OF br])
        assume a: "best_val_metric s = None \<and> (\<forall>c. s0 < c \<and> c \<le> n \<longrightarrow> \<not> v dvd c)"
        have "\<not> v dvd c" if "s0 < c \<and> c \<le> n + 1" for c
        proof (cases "c = n + 1")
          case True then show ?thesis using False by simp
        next
          case False then show ?thesis using a that by simp
        qed
        then show ?thesis using a s'(4) by auto
      next
        assume "\<exists>c. s0 < c \<and> c \<le> n \<and> n < c + v \<and> v dvd c \<and> best_val_metric s = Some (loss c)
                \<and> best_val_iter s = c \<and> patience_counter s = Some 0"
        then obtain c where c: "s0 < c" "c \<le> n" "n < c + v" "v dvd c"
          "best_val_metric s = Some (loss c)" "best_val_iter s = c" "patience_counter s = Some 0"
          by blast
        have "n < c + (0 + 1) * v" using c(3) by simp
        from no_check_position [OF c(4) False this] have "n + 1 < c + v" by simp
        then show ?thesis using c s'(4-6) by auto
      qed
      then have "I1 (n + 1) s'" unfolding I1_def using s'(2,3) by simp
      then show ?thesis using ne s'(1) by blast
    qed
  qed

  have k1: "s0 + int (nat (m - s0)) = m" using sm by (simp add: s0_def)
  from train_loop_steps [where I = I1 and a = s0 and b = m and conf = conf and loss = loss
        and psnr = psnr, OF step1 order_refl k1 init]
  obtain S1 where S1: "I1 m S1"
    and r1: "\<forall>rest. train_loop (nat (m - s0) + rest) conf loss psnr S0 = train_loop rest conf loss psnr S1"
    by blast

  have i2m: "I2 m S1"
  proof -
    from S1 have st: "loop_static e w S1" and it: "iter_step (run S1) = m"
      and br: "(best_val_metric S1 = None \<and> (\<forall>c. s0 < c \<and> c \<le> m \<longrightarrow> \<not> v dvd c))
         \<or> (\<exists>c. s0 < c \<and> c \<le> m \<and> m < c + v \<and> v dvd c \<and> best_val_metric S1 = Some (loss c)
                \<and> best_val_iter S1 = c \<and> patience_counter S1 = Some 0)"
      by (simp_all add: I1_def)
    have "\<not> (\<forall>c. s0 < c \<and> c \<le> m \<longrightarrow> \<not> v dvd c)" using sm dm' by (auto simp: s0_def)
    with br obtain c where c: "c \<le> m" "m < c + v" "v dvd c" "best_val_metric S1 = Some (loss c)"
      "best_val_iter S1 = c" "patience_counter S1 = Some 0" by blast
    have "c = m"
    proof -
      have "v dvd (m - c)" using dm' c(3) by (rule dvd_diff)
      then obtain q where q: "m - c = v * q" by (auto simp: dvd_def)
      have "(- 1) * v < v * q" using c(1) q v0 by simp
      moreover have "v * q \<le> (- 1 + 1) * v" 
      proof -
        have "v * q < v * 1" using c(2) q by simp
        then have "q < 1" using v0 by (simp add: mult_less_cancel_left_pos)
        then have "q \<le> 0" by simp
        then have "v * q \<le> 0" using v0 by (simp add: mult_le_0_iff)
        then show ?thesis by simp
      qed
      ultimately have "q = - 1 + 1" using v0 by (intro multiple_in_window)
      then show ?thesis using q by simp
    qed
    then show ?thesis unfolding I2_def using st it c v0 by auto
  qed

  have step2: "\<not> early_stop s \<and> (\<exists>s'. train_iteration conf loss psnr s = Inr (s', False) \<and> I2 (n + 1) s')"
    if "m \<le> n" "n < m + p * v - 1" "I2 n s" for n s
  proof -
    from that(3) obtain c where st: "loop_static e w s" and it: "iter_step (run s) = n"
      and b: "best_val_metric s = Some (loss m)" and bi: "best_val_iter s = m"
      and c: "patience_counter s = Some c" "0 \<le> c" "m + c * v \<le> n" "n < m + (c + 1) * v"
      by (auto simp: I2_def)
    have ne: "\<not> early_stop s" using st by (simp add: loop_static_def)
    have lte: "iter_step (run s) + 1 < e" using that(2) it me by simp
    show ?thesis
    proof (cases "v dvd (n + 1)")
      case True
      have pos: "n + 1 = m + (c + 1) * v" using v0 dm' True c(3,4) by (rule next_check_position)
      have "(c + 1) * v < p * v" using pos that(2) by linarith
      then have lt: "c + 1 < patience conf" using v0 by (simp add: mult_less_cancel_right_pos p_def)
      have "m < n + 1 \<and> n + 1 \<le> m + patience conf * \<bar>val_freq conf\<bar> \<and> val_freq conf dvd (n + 1)"
        using that(1,2) True by (simp add: p_def v_def)
      then have "\<not> loss (n + 1) < loss m" using plateau by blast
      then have ni: "\<not> loss (iter_step (run s) + 1) < loss m" by (simp add: it)
      have ck: "val_freq conf dvd (iter_step (run s) + 1)" using True by (simp add: it v_def)
      from iteration_waiting [where loss = loss and psnr = psnr, OF ok st lte ck b ni c(1) lt] obtain s' where
        s': "train_iteration conf loss psnr s = Inr (s', False)" "loop_static e w s'"
          "iter_step (run s') = n + 1" "best_val_metric s' = Some (loss m)"
          "best_val_iter s' = best_val_iter s" "patience_counter s' = Some (c + 1)"
        unfolding it by blast
      have "m + (c + 1) * v \<le> n + 1" using pos by simp
      moreover have "n + 1 < m + (c + 1 + 1) * v" using pos v0 by (simp add: algebra_simps)
      ultimately have "I2 (n + 1) s'"
        unfolding I2_def using s'(2-6) bi c(2) by auto
      then show ?thesis using ne s'(1) by blast
    next
      case False
      have nc: "\<not> val_freq conf dvd (iter_step (run s) + 1)" using False by (simp add: it v_def)
      from iteration_without_check [where loss = loss and psnr = psnr, OF ok st lte nc] obtain s' where
        s': "train_iteration conf loss psnr s = Inr (s', False)" "loop_static e w s'"
          "iter_step (run s') = n + 1" "best_val_metric s' = best_val_metric s"
          "best_val_iter s' = best_val_iter s" "patience_counter s' = patience_counter s"
        unfolding it by blast
      have "n + 1 < m + (c + 1) * v" using dm' False c(4) by (rule no_check_position)
      then have "I2 (n + 1) s'"
        unfolding I2_def using s'(2-6) b bi c(1,2,3) by auto
      then show ?thesis using ne s'(1) by blast
    qed
  qed

  have k2: "m + int (nat (p * v - 1)) = m + p * v - 1" using pv by simp
  from train_loop_steps [where I = I2 and a = m and b = "m + p * v - 1" and conf = conf
        and loss = loss and psnr = psnr, OF step2 order_refl k2 i2m]
  obtain S2 where S2: "I2 (m + p * v - 1) S2"
    and r2: "\<forall>rest. train_loop (nat (p * v - 1) + rest) conf loss psnr S1 = train_loop rest conf loss psnr S2"
    by blast

  from S2 obtain c where st2: "loop_static e w S2" and it2: "iter_step (run S2) = m + p * v - 1"
    and b2: "best_val_metric S2 = Some (loss m)" and bi2: "best_val_iter S2 = m"
    and c2: "patience_counter S2 = Some c" "0 \<le> c" "m + c * v \<le> m + p * v - 1"
      "m + p * v - 1 < m + (c + 1) * v"
    by (auto simp: I2_def)
  have ne2: "\<not> early_stop S2" using st2 by (simp add: loop_static_def)
  have "v dvd (m + p * v - 1 + 1)" using dm' by simp
  then have ck2: "val_freq conf dvd (iter_step (run S2) + 1)" by (simp add: it2 v_def)
  have pos2: "m + p * v - 1 + 1 = m + (c + 1) * v"
    using v0 dm' \<open>v dvd (m + p * v - 1 + 1)\<close> c2(3,4) by (rule next_check_position)
  then have "p * v = (c + 1) * v" by simp
  then have pc: "p = c + 1" using v0 by simp
  have ge2: "patience conf \<le> c + 1" using pc by (simp add: p_def)
  have "m < m + p * v \<and> m + p * v \<le> m + patience conf * \<bar>val_freq conf\<bar> \<and> val_freq conf dvd (m + p * v)"
    using pv dm' by (simp add: p_def v_def)
  then have "\<not> loss (m + p * v) < loss m" using plateau by blast
  then have ni2: "\<not> loss (iter_step (run S2) + 1) < loss m" by (simp add: it2)
  from iteration_stopping [where loss = loss and psnr = psnr, OF ok ck2 b2 ni2 c2(1) ge2] obtain S3 where
    S3: "train_iteration conf loss psnr S2 = Inr (S3, True)" "early_stop S3"
      "iter_step (run S3) = iter_step (run S2) + 1" "best_val_metric S3 = Some (loss m)"
      "best_val_iter S3 = best_val_iter S2" "patience_counter S3 = Some (c + 1)"
    by blast

  define rest where "rest = nat (e - (m + p * v))"
  have total: "nat (e - s0) = nat (m - s0) + (nat (p * v - 1) + Suc rest)"
    using sm fit pv by (simp add: rest_def e_def s0_def p_def v_def nat_add_distrib) 
  have last: "train_loop (Suc rest) conf loss psnr S2 = Inr S3"
    using ne2 S3(1) by simp
  have "train_loop (nat (m - s0) + (nat (p * v - 1) + Suc rest)) conf loss psnr S0
          = train_loop (nat (p * v - 1) + Suc rest) conf loss psnr S1"
    using r1 by blast
  also have "\<dots> = train_loop (Suc rest) conf loss psnr S2" using r2 by blast
  also have "\<dots> = Inr S3" by (rule last)
  finally have "train conf loss psnr r = Inr S3"
    unfolding tr total .
  moreover have "iter_step (run S3) = m + patience conf * \<bar>val_freq conf\<bar>"
    using S3(3) it2 by (simp add: p_def v_def)
  moreover have "patience_counter S3 = Some (patience conf)" using S3(6) pc by (simp add: p_def)
  ultimately show ?thesis using S3(2,4,5) bi2 by simp
qed

theorem early_stopping_after_patience_witness:
  "train_conf_ok example_train_conf \<and> 1 \<le> patience example_train_conf
   \<and> 0 \<le> iter_step example_runner
   \<and> iter_step example_runner < 54 \<and> val_freq example_train_conf dvd 54
   \<and> 54 + patience example_train_conf * \<bar>val_freq example_train_conf\<bar> \<le> end_iter example_runner
   \<and> example_loss 54 < example_loss 52
   \<and> \<not> example_loss 56 < example_loss 54 \<and> \<not> example_loss 58 < example_loss 54
   \<and> (\<exists>s'. train example_train_conf example_loss example_psnr example_runner = Inr s'
          \<and> early_stop s' \<and> iter_step (run s') = 58 \<and> best_val_iter s' = 54
          \<and> best_val_metric s' = Some 46 \<and> patience_counter s' = Some 2)"
proof -
  have ok: "train_conf_ok example_train_conf" by (simp add: train_conf_ok_def example_train_conf_def)
  have p1: "1 \<le> patience example_train_conf" by (simp add: example_train_conf_def)
  have i0: "0 \<le> iter_step example_runner" by (simp add: example_runner_def)
  have sm: "iter_step example_runner < 54" by (simp add: example_runner_def)
  have dm: "val_freq example_train_conf dvd 54" by (simp add: example_train_conf_def)
  have fit: "54 + patience example_train_conf * \<bar>val_freq example_train_conf\<bar> \<le> end_iter example_runner"
    by (simp add: example_train_conf_def example_runner_def)
  have improving: "\<forall>c c'. iter_step example_runner < c \<and> c < c' \<and> c' \<le> 54
        \<and> val_freq example_train_conf dvd c \<and> val_freq example_train_conf dvd c'
        \<longrightarrow> example_loss c' < example_loss c"
    by (auto simp: example_loss_def)
  have plateau: "\<forall>c. 54 < c \<and> c \<le> 54 + patience example_train_conf * \<bar>val_freq example_train_conf\<bar>
        \<and> val_freq example_train_conf dvd c \<longrightarrow> \<not> example_loss c < example_loss 54"
    by (auto simp: example_loss_def)
  have pat: "patience example_train_conf = 2" and vf: "val_freq example_train_conf = 2"
    by (simp_all add: example_train_conf_def)
  have l54: "example_loss 54 = 46" by (simp add: example_loss_def)
  from early_stopping_after_patience [OF ok p1 i0 sm dm fit improving plateau, of example_psnr]
  have "\<exists>s'. train example_train_conf example_loss example_psnr example_runner = Inr s'
          \<and> early_stop s' \<and> iter_step (run s') = 58 \<and> best_val_iter s' = 54
          \<and> best_val_metric s' = Some 46 \<and> patience_counter s' = Some 2"
    unfolding pat vf l54 by simp
  moreover have "example_loss 54 < example_loss 52" "\<not> example_loss 56 < example_loss 54"
    "\<not> example_loss 58 < example_loss 54" by (simp_all add: example_loss_def)
  ultimately show ?thesis using ok p1 i0 sm dm fit by blast
qed

end
